theory Spec2Isabelle
  imports Main "HOL-Library.AList" "HOL-Library.Monad_Syntax"
begin

section \<open>Values exchanged with the carrier\<close>

text \<open>
  Bodies that travel over the wire are JSON values. Numbers are modelled as integers
  (IEEE doubles are exact on them below \<open>2^53\<close>); an object is the list of its
  properties, read with \<open>map_of\<close>. A property that is absent reads as \<open>None\<close>
  (JavaScript's \<open>undefined\<close>).
\<close>

datatype json =
    JNull
  | JBool bool
  | JNum int
  | JStr string
  | JArr "json list"
  | JObj "(string \<times> json) list"

definition getProp :: "string \<Rightarrow> json \<Rightarrow> json option" where
  "getProp k v = (case v of JObj kvs \<Rightarrow> map_of kvs k | _ \<Rightarrow> None)"

text \<open>Template literals print a number in decimal.\<close>

fun string_of_nat :: "nat \<Rightarrow> string" where
  "string_of_nat n =
     (if n < 10 then [''0123456789'' ! n]
      else string_of_nat (n div 10) @ [''0123456789'' ! (n mod 10)])"

declare string_of_nat.simps [simp del]

definition string_of_int :: "int \<Rightarrow> string" where
  "string_of_int i = (if i < 0 then ''-'' @ string_of_nat (nat (- i)) else string_of_nat (nat i))"

section \<open>core/errors.ts and the values a \<open>catch\<close> can see\<close>

text \<open>
  The class of an application error (\<open>this.name = this.constructor.name\<close>); the spec
  calls it the error's kind.
\<close>

datatype err_class =
    ValidationError
  | AuthenticationError
  | OperationNotFoundError
  | CarrierApiError
  | RateLimitError

datatype AxiosResponse = AxiosResponse (status: int) (rdata: json)

text \<open>
  A thrown value is an axios error (with the response, when one was received), an
  application error of core/errors.ts, any other \<open>Error\<close> instance (a \<open>ZodError\<close>,
  a \<open>TypeError\<close>), or a value that is no \<open>Error\<close> at all. Only \<open>CarrierApiError\<close>
  and its subclass declare \<open>httpStatus\<close> and \<open>carrierCode\<close>.
\<close>

datatype thrown =
    AxiosError (message: string) (response: "AxiosResponse option")
  | OtherError (message: string)
  | NonError json
  | AppError (name: err_class) (code: string) (message: string)
      (httpStatus: "int option") (carrierCode: "string option") (cause: "thrown option")

definition new_ValidationError :: "string \<Rightarrow> thrown option \<Rightarrow> thrown" where
  "new_ValidationError msg c = AppError ValidationError ''VALIDATION_ERROR'' msg None None c"

definition new_AuthenticationError :: "string \<Rightarrow> thrown option \<Rightarrow> thrown" where
  "new_AuthenticationError msg c =
     AppError AuthenticationError ''AUTHENTICATION_ERROR'' msg None None c"

definition new_OperationNotFoundError :: "string \<Rightarrow> thrown" where
  "new_OperationNotFoundError key =
     AppError OperationNotFoundError ''OPERATION_NOT_FOUND''
       (''No operation registered for \"'' @ key @ ''\"'') None None None"

definition new_CarrierApiError ::
  "string \<Rightarrow> int \<Rightarrow> string option \<Rightarrow> thrown option \<Rightarrow> thrown" where
  "new_CarrierApiError msg st cc c =
     AppError CarrierApiError ''CARRIER_API_ERROR'' msg (Some st) cc c"

text \<open>
  \<open>RateLimitError\<close> calls the \<open>CarrierApiError\<close> constructor with status 429 and then
  overwrites \<open>code\<close>; its message defaults to "Rate limit exceeded".
\<close>

definition new_RateLimitError :: "string option \<Rightarrow> thrown option \<Rightarrow> thrown" where
  "new_RateLimitError msg c =
     AppError RateLimitError ''RATE_LIMIT_ERROR''
       (case msg of None \<Rightarrow> ''Rate limit exceeded'' | Some m \<Rightarrow> m) (Some 429) None c"

definition instanceof_Error :: "thrown \<Rightarrow> bool" where
  "instanceof_Error e = (case e of NonError _ \<Rightarrow> False | _ \<Rightarrow> True)"

definition instanceof_CarrierApiError :: "thrown \<Rightarrow> bool" where
  "instanceof_CarrierApiError e =
     (case e of AppError c _ _ _ _ _ \<Rightarrow> c = CarrierApiError \<or> c = RateLimitError | _ \<Rightarrow> False)"

definition isAxiosError :: "thrown \<Rightarrow> bool" where
  "isAxiosError e = (case e of AxiosError _ _ \<Rightarrow> True | _ \<Rightarrow> False)"

text \<open>\<open>error.response?.status\<close>, read after \<open>isAxiosError\<close> has answered yes.\<close>

definition response_status :: "thrown \<Rightarrow> int option" where
  "response_status e =
     (case e of AxiosError _ (Some r) \<Rightarrow> Some (status r) | _ \<Rightarrow> None)"

section \<open>core/ICarrierAuth.ts\<close>

text \<open>
  The token provider as the executor sees it: two operations on a world \<open>'w\<close> that
  holds the provider's fields and whatever environment it talks to.
\<close>

record 'w ICarrierAuth =
  accessToken :: "'w \<Rightarrow> (thrown + string) \<times> 'w"
  clearToken :: "'w \<Rightarrow> 'w"

section \<open>infra/HttpClient.ts\<close>

record AxiosRequestConfig =
  "method" :: string
  url :: string
  data :: "json option"
  headers :: "(string \<times> string) list"

text \<open>
  What the executor does to its collaborators is recorded in a trace, in order; the
  trace is how "exactly once" and "at most two" are stated.
\<close>

datatype event =
    AccessTokenCall
  | ClearTokenCall
  | TransportCall AxiosRequestConfig

type_synonym 'w transport = "AxiosRequestConfig \<Rightarrow> 'w \<Rightarrow> (thrown + json) \<times> 'w"

definition isTransportCall :: "event \<Rightarrow> bool" where
  "isTransportCall ev = (case ev of TransportCall _ \<Rightarrow> True | _ \<Rightarrow> False)"

definition call_accessToken ::
  "'w ICarrierAuth \<Rightarrow> 'w \<times> event list \<Rightarrow> (thrown + string) \<times> 'w \<times> event list" where
  "call_accessToken auth s =
     (case accessToken auth (fst s) of (r, w') \<Rightarrow> (r, (w', snd s @ [AccessTokenCall])))"

definition call_clearToken :: "'w ICarrierAuth \<Rightarrow> 'w \<times> event list \<Rightarrow> 'w \<times> event list" where
  "call_clearToken auth s = (clearToken auth (fst s), snd s @ [ClearTokenCall])"

text \<open>
  \<open>{ ...config, headers: { ...config.headers, Authorization: `Bearer ${token}` } }\<close>:
  an existing Authorization entry is overwritten in place, otherwise one is appended.
\<close>

definition withToken :: "AxiosRequestConfig \<Rightarrow> string \<Rightarrow> AxiosRequestConfig" where
  "withToken config token =
     config\<lparr>headers := AList.update ''Authorization'' (''Bearer '' @ token) (headers config)\<rparr>"

definition executeWithToken ::
  "'w transport \<Rightarrow> AxiosRequestConfig \<Rightarrow> string \<Rightarrow> 'w \<times> event list
     \<Rightarrow> (thrown + json) \<times> 'w \<times> event list" where
  "executeWithToken client config token s =
     (case client (withToken config token) (fst s) of
        (r, w') \<Rightarrow> (r, (w', snd s @ [TransportCall (withToken config token)])))"

definition toStructuredError :: "thrown \<Rightarrow> thrown" where
  "toStructuredError error =
     (if \<not> isAxiosError error then
        new_CarrierApiError
          (if instanceof_Error error then message error else ''Unknown HTTP error'') 0 None
          (if instanceof_Error error then Some error else None)
      else
        (case response_status error of
           Some st \<Rightarrow>
             if st = 429 then new_RateLimitError None (Some error)
             else new_CarrierApiError (''HTTP '' @ string_of_int st) st None (Some error)
         | None \<Rightarrow> new_CarrierApiError (message error) 0 None (Some error)))"

definition retryWithFreshToken ::
  "'w ICarrierAuth \<Rightarrow> 'w transport \<Rightarrow> AxiosRequestConfig \<Rightarrow> 'w \<times> event list
     \<Rightarrow> (thrown + json) \<times> 'w \<times> event list" where
  "retryWithFreshToken auth client config s =
     (case call_accessToken auth (call_clearToken auth s) of
        (Inl e, s1) \<Rightarrow> (Inl e, s1)
      | (Inr freshToken, s1) \<Rightarrow>
          (case executeWithToken client config freshToken s1 of
             (Inr body, s2) \<Rightarrow> (Inr body, s2)
           | (Inl retryError, s2) \<Rightarrow>
               if isAxiosError retryError \<and> response_status retryError = Some 401
               then (Inl (new_AuthenticationError ''Authentication failed after token refresh''
                            (Some retryError)), s2)
               else (Inl (toStructuredError retryError), s2)))"

definition request ::
  "'w ICarrierAuth \<Rightarrow> 'w transport \<Rightarrow> AxiosRequestConfig \<Rightarrow> 'w \<times> event list
     \<Rightarrow> (thrown + json) \<times> 'w \<times> event list" where
  "request auth client config s =
     (case call_accessToken auth s of
        (Inl e, s1) \<Rightarrow> (Inl e, s1)
      | (Inr token, s1) \<Rightarrow>
          (case executeWithToken client config token s1 of
             (Inr body, s2) \<Rightarrow> (Inr body, s2)
           | (Inl error, s2) \<Rightarrow>
               if isAxiosError error \<and> response_status error = Some 401
               then retryWithFreshToken auth client config s2
               else (Inl (toStructuredError error), s2)))"

subsection \<open>The doubles of tests/infra/HttpClient.test.ts\<close>

text \<open>
  \<open>stubAuth(tokens)\<close> hands out \<open>tokens[callIndex] ?? tokens.at(-1) ?? "tok_default"\<close>
  and counts its calls; \<open>mockRequest\<close> answers from a queue filled by
  \<open>mockResolvedValueOnce\<close> / \<open>mockRejectedValueOnce\<close>. With the queue empty the mock
  returns \<open>undefined\<close>, and reading \<open>response.data\<close> raises a \<open>TypeError\<close>.
\<close>

record stub_world =
  callIndex :: nat
  queue :: "(thrown + json) list"

definition stubAuth :: "string list \<Rightarrow> stub_world ICarrierAuth" where
  "stubAuth tokens =
     \<lparr> accessToken = (\<lambda>w.
          (Inr (if callIndex w < length tokens then tokens ! callIndex w
                else if tokens \<noteq> [] then last tokens else ''tok_default''),
           w\<lparr>callIndex := callIndex w + 1\<rparr>)),
       clearToken = (\<lambda>w. w) \<rparr>"

definition mockRequest :: "stub_world transport" where
  "mockRequest config w =
     (case queue w of
        [] \<Rightarrow> (Inl (OtherError ''Cannot read properties of undefined (reading 'data')''), w)
      | r # rs \<Rightarrow> (r, w\<lparr>queue := rs\<rparr>))"

definition axiosError :: "int \<Rightarrow> thrown" where
  "axiosError st =
     AxiosError (''Request failed with status '' @ string_of_int st) (Some (AxiosResponse st JNull))"

definition networkError :: "string \<Rightarrow> thrown" where
  "networkError msg = AxiosError msg None"

definition GET_test :: AxiosRequestConfig where
  "GET_test = \<lparr> method = ''GET'', url = ''/test'', data = None, headers = [] \<rparr>"

definition retry401 :: stub_world where
  "retry401 = \<lparr>callIndex = 0,
                queue = [Inl (axiosError 401), Inr (JObj [(''ok'', JBool True)])]\<rparr>"

definition double401 :: stub_world where
  "double401 = \<lparr>callIndex = 0, queue = [Inl (axiosError 401), Inl (axiosError 401)]\<rparr>"

definition failing500 :: stub_world where
  "failing500 = \<lparr>callIndex = 0, queue = [Inl (axiosError 500)]\<rparr>"

definition retry429 :: stub_world where
  "retry429 = \<lparr>callIndex = 0, queue = [Inl (axiosError 401), Inl (axiosError 429)]\<rparr>"

section \<open>What the JavaScript runtime and zod contribute\<close>

text \<open>
  Two things the repository's code relies on are not written in it: the coercion
  \<open>Number(v)\<close> behind \<open>z.coerce.number()\<close> (\<open>None\<close> stands for \<open>NaN\<close>, and \<open>v\<close> is
  \<open>None\<close> for a missing property), and the text of the message zod puts into a
  \<open>ZodError\<close> for a given schema and rejected input. Both are parameters of the model.
\<close>

record runtime =
  Number :: "json option \<Rightarrow> int option"
  zodMessage :: "string \<Rightarrow> json \<Rightarrow> string"

text \<open>The zod combinators the schemas are built from, on a property that may be absent.\<close>

definition z_string :: "json option \<Rightarrow> string option" where
  "z_string v = (case v of Some (JStr s) \<Rightarrow> Some s | _ \<Rightarrow> None)"

definition z_number :: "json option \<Rightarrow> int option" where
  "z_number v = (case v of Some (JNum n) \<Rightarrow> Some n | _ \<Rightarrow> None)"

definition z_object :: "json option \<Rightarrow> (string \<times> json) list option" where
  "z_object v = (case v of Some (JObj kvs) \<Rightarrow> Some kvs | _ \<Rightarrow> None)"

definition z_array :: "(json option \<Rightarrow> 'a option) \<Rightarrow> json option \<Rightarrow> 'a list option" where
  "z_array item v = (case v of Some (JArr xs) \<Rightarrow> those (map (\<lambda>x. item (Some x)) xs) | _ \<Rightarrow> None)"

definition z_optional :: "(json option \<Rightarrow> 'a option) \<Rightarrow> json option \<Rightarrow> 'a option option" where
  "z_optional item v = (case v of None \<Rightarrow> Some None | Some x \<Rightarrow> map_option Some (item (Some x)))"

definition z_coerce_number :: "runtime \<Rightarrow> json option \<Rightarrow> int option" where
  "z_coerce_number rt v = Number rt v"

definition positive :: "int \<Rightarrow> int option" where
  "positive n = (if 0 < n then Some n else None)"

definition nonnegative :: "int \<Rightarrow> int option" where
  "nonnegative n = (if 0 \<le> n then Some n else None)"

section \<open>carriers/ups/UpsAuthClient.ts\<close>

datatype UpsErrorEntry = UpsErrorEntry (err_code: string) (err_message: string)

definition UpsErrorEntrySchema :: "json option \<Rightarrow> UpsErrorEntry option" where
  "UpsErrorEntrySchema v = do {
     kvs \<leftarrow> z_object v;
     c \<leftarrow> z_string (map_of kvs ''code'');
     m \<leftarrow> z_string (map_of kvs ''message'');
     Some (UpsErrorEntry c m)
   }"

text \<open>\<open>UpsErrorResponseSchema.safeParse(data)\<close>; the result is \<open>parsed.data.response.errors\<close>.\<close>

definition UpsErrorResponseSchema :: "json \<Rightarrow> UpsErrorEntry list option" where
  "UpsErrorResponseSchema v = do {
     top \<leftarrow> z_object (Some v);
     resp \<leftarrow> z_object (map_of top ''response'');
     z_array UpsErrorEntrySchema (map_of resp ''errors'')
   }"

record TokenResponse =
  token_type :: string
  issued_at :: string
  client_id :: string
  access_token :: string
  scope :: string
  expires_in :: int
  refresh_count :: int
  status_field :: string

definition TokenResponseSchema :: "runtime \<Rightarrow> json \<Rightarrow> TokenResponse option" where
  "TokenResponseSchema rt v = do {
     kvs \<leftarrow> z_object (Some v);
     tt \<leftarrow> z_string (map_of kvs ''token_type'');
     ia \<leftarrow> z_string (map_of kvs ''issued_at'');
     ci \<leftarrow> z_string (map_of kvs ''client_id'');
     at \<leftarrow> z_string (map_of kvs ''access_token'');
     sc \<leftarrow> z_string (map_of kvs ''scope'');
     ei \<leftarrow> z_coerce_number rt (map_of kvs ''expires_in'') \<bind> positive;
     rc \<leftarrow> z_coerce_number rt (map_of kvs ''refresh_count'') \<bind> nonnegative;
     st \<leftarrow> z_string (map_of kvs ''status'');
     Some \<lparr> token_type = tt, issued_at = ia, client_id = ci, access_token = at, scope = sc,
            expires_in = ei, refresh_count = rc, status_field = st \<rparr>
   }"

definition EXPIRY_BUFFER_S :: int where
  "EXPIRY_BUFFER_S = 60"

text \<open>
  The provider's two private fields live in a world together with its environment:
  the clock (\<open>now\<close> is what \<open>Date.now()\<close> returns, in milliseconds) and the number of
  \<open>axios.post\<close> and \<open>client.request\<close> calls issued so far. The network is an oracle:
  its answer to the k-th call is a latency in milliseconds and either the thrown value
  or the body of the response. The token request is built from the read-only
  configuration, so it is the same at every call and the oracle does not take it.
\<close>

record world =
  cachedToken :: "string option"
  expiresAt :: int
  now :: int
  posts :: nat
  requests :: nat

type_synonym post_oracle = "nat \<Rightarrow> nat \<times> (thrown + json)"

definition UpsAuthClient_toStructuredError :: "thrown \<Rightarrow> thrown" where
  "UpsAuthClient_toStructuredError error =
     (if \<not> isAxiosError error \<or> response error = None then
        new_CarrierApiError
          (''UPS OAuth request failed: '' @
             (if instanceof_Error error then message error else ''Unknown error''))
          0 None (if instanceof_Error error then Some error else None)
      else
        let st = status (the (response error));
            parsed = UpsErrorResponseSchema (rdata (the (response error)));
            firstError = (case parsed of Some (e # _) \<Rightarrow> Some e | _ \<Rightarrow> None);
            msg = (case firstError of
                     Some e \<Rightarrow> err_message e
                   | None \<Rightarrow> ''UPS OAuth request failed (HTTP '' @ string_of_int st @ '')'');
            carrierCode = map_option err_code firstError
        in if st = 401 \<or> st = 403 then new_AuthenticationError msg (Some error)
           else if st = 429 then new_RateLimitError (Some msg) (Some error)
           else new_CarrierApiError msg st carrierCode (Some error))"

definition authenticate :: "runtime \<Rightarrow> post_oracle \<Rightarrow> world \<Rightarrow> (thrown + string) \<times> world" where
  "authenticate rt post w =
     (case post (posts w) of
        (latency, outcome) \<Rightarrow>
          let w1 = w\<lparr>posts := posts w + 1, now := now w + int latency\<rparr> in
          (case outcome of
             Inl error \<Rightarrow> (Inl (UpsAuthClient_toStructuredError error), w1)
           | Inr body \<Rightarrow>
               (case TokenResponseSchema rt body of
                  None \<Rightarrow>
                    (Inl (UpsAuthClient_toStructuredError
                            (OtherError (zodMessage rt ''TokenResponseSchema'' body))), w1)
                | Some parsed \<Rightarrow>
                    (Inr (access_token parsed),
                     w1\<lparr>cachedToken := Some (access_token parsed),
                        expiresAt := now w1 + (expires_in parsed - EXPIRY_BUFFER_S) * 1000\<rparr>))))"

definition UpsAuthClient_accessToken ::
  "runtime \<Rightarrow> post_oracle \<Rightarrow> world \<Rightarrow> (thrown + string) \<times> world" where
  "UpsAuthClient_accessToken rt post w =
     (if cachedToken w \<noteq> None \<and> now w < expiresAt w then (Inr (the (cachedToken w)), w)
      else authenticate rt post w)"

definition UpsAuthClient_clearToken :: "world \<Rightarrow> world" where
  "UpsAuthClient_clearToken w = w\<lparr>cachedToken := None, expiresAt := 0\<rparr>"

text \<open>\<open>new UpsAuthClient(config)\<close>: nothing cached, \<open>expiresAt = 0\<close>.\<close>

definition new_world :: "int \<Rightarrow> world" where
  "new_world t = \<lparr> cachedToken = None, expiresAt = 0, now = t, posts = 0, requests = 0 \<rparr>"

definition UpsAuthClient :: "runtime \<Rightarrow> post_oracle \<Rightarrow> world ICarrierAuth" where
  "UpsAuthClient rt post =
     \<lparr> accessToken = UpsAuthClient_accessToken rt post, clearToken = UpsAuthClient_clearToken \<rparr>"

subsection \<open>A runtime for concrete runs, and the doubles of the auth tests\<close>

text \<open>
  \<open>Number_js\<close> agrees with JavaScript's \<open>Number\<close> on numbers, booleans, \<open>null\<close>, the
  empty string and strings of decimal digits, which is all the concrete runs below
  feed it; every other value it sends to \<open>NaN\<close>.
\<close>

fun digits_value :: "string \<Rightarrow> nat \<Rightarrow> nat option" where
  "digits_value [] acc = Some acc"
| "digits_value (c # cs) acc =
     (if (48::nat) \<le> of_char c \<and> of_char c \<le> (57::nat)
      then digits_value cs (10 * acc + (of_char c - 48))
      else None)"

definition Number_js :: "json option \<Rightarrow> int option" where
  "Number_js v =
     (case v of
        Some (JNum n) \<Rightarrow> Some n
      | Some (JBool b) \<Rightarrow> Some (if b then 1 else 0)
      | Some JNull \<Rightarrow> Some 0
      | Some (JStr s) \<Rightarrow> map_option int (digits_value s 0)
      | _ \<Rightarrow> None)"

definition node :: runtime where
  "node = \<lparr> Number = Number_js, zodMessage = (\<lambda>schema v. ''Invalid input'') \<rparr>"

definition oauthResponse :: "(string \<times> json) list \<Rightarrow> json" where
  "oauthResponse overrides =
     JObj (fold (\<lambda>(k, v). AList.update k v) overrides
       [(''token_type'', JStr ''Bearer''),
        (''issued_at'', JStr ''1718000000000''),
        (''client_id'', JStr ''test-client-id''),
        (''access_token'', JStr ''tok_abc123''),
        (''scope'', JStr ''public''),
        (''expires_in'', JStr ''14400''),
        (''refresh_count'', JStr ''0''),
        (''status'', JStr ''approved'')])"

definition upsAxiosError :: "int \<Rightarrow> string \<Rightarrow> string \<Rightarrow> thrown" where
  "upsAxiosError st c m =
     AxiosError ''Request failed''
       (Some (AxiosResponse st
          (JObj [(''response'', JObj [(''errors'',
             JArr [JObj [(''code'', JStr c), (''message'', JStr m)]])])])))"

definition mockedPost :: "(thrown + json) list \<Rightarrow> post_oracle" where
  "mockedPost answers k =
     (if k < length answers then (0, answers ! k)
      else (0, Inl (OtherError ''Cannot read properties of undefined (reading 'data')'')))"

definition cached :: world where
  "cached = \<lparr> cachedToken = Some ''tok_abc123'', expiresAt = 14340000, now = 0,
              posts = 1, requests = 0 \<rparr>"

definition minimalBody :: json where
  "minimalBody = JObj [(''access_token'', JStr ''tok''), (''expires_in'', JNum 3600)]"

definition shortLived :: world where
  "shortLived = \<lparr> cachedToken = Some ''tok_abc123'', expiresAt = 1000, now = 0,
                  posts = 1, requests = 0 \<rparr>"

definition refreshPosts :: post_oracle where
  "refreshPosts = mockedPost [Inr (oauthResponse [(''expires_in'', JStr ''61'')]),
                              Inr (oauthResponse [(''access_token'', JStr ''tok_refreshed'')])]"

definition fullBody :: "(string \<times> json) list" where
  "fullBody =
     [(''token_type'', JStr ''Bearer''), (''issued_at'', JStr ''1718000000000''),
      (''client_id'', JStr ''test-client-id''), (''access_token'', JStr ''tok_abc123''),
      (''scope'', JStr ''public''), (''expires_in'', JStr ''14400''),
      (''refresh_count'', JStr ''0''), (''status'', JStr ''approved''),
      (''refresh_token'', JNull)]"

definition expired :: world where
  "expired = \<lparr> cachedToken = Some ''tok_abc123'', expiresAt = 14340000, now = 14340000,
               posts = 1, requests = 0 \<rparr>"

section \<open>core/types.ts\<close>

definition z_min :: "nat \<Rightarrow> string \<Rightarrow> string option" where
  "z_min n s = (if n \<le> length s then Some s else None)"

definition z_length :: "nat \<Rightarrow> string \<Rightarrow> string option" where
  "z_length n s = (if length s = n then Some s else None)"

definition z_array_min :: "nat \<Rightarrow> 'a list \<Rightarrow> 'a list option" where
  "z_array_min n xs = (if n \<le> length xs then Some xs else None)"

record Address =
  line1 :: string
  line2 :: "string option"
  city :: string
  stateCode :: string
  postalCode :: string
  countryCode :: string

record Package =
  weightLbs :: int
  lengthIn :: int
  widthIn :: int
  heightIn :: int

record RateRequest =
  origin :: Address
  destination :: Address
  packages :: "Package list"

definition AddressSchema :: "json option \<Rightarrow> Address option" where
  "AddressSchema v = do {
     kvs \<leftarrow> z_object v;
     l1 \<leftarrow> z_string (map_of kvs ''line1'') \<bind> z_min 1;
     l2 \<leftarrow> z_optional z_string (map_of kvs ''line2'');
     ct \<leftarrow> z_string (map_of kvs ''city'') \<bind> z_min 1;
     sc \<leftarrow> z_string (map_of kvs ''stateCode'') \<bind> z_length 2;
     pc \<leftarrow> z_string (map_of kvs ''postalCode'') \<bind> z_min 1;
     cc \<leftarrow> z_string (map_of kvs ''countryCode'') \<bind> z_length 2;
     Some \<lparr> line1 = l1, line2 = l2, city = ct, stateCode = sc, postalCode = pc,
            countryCode = cc \<rparr>
   }"

definition PackageSchema :: "json option \<Rightarrow> Package option" where
  "PackageSchema v = do {
     kvs \<leftarrow> z_object v;
     wt \<leftarrow> z_number (map_of kvs ''weightLbs'') \<bind> positive;
     ln \<leftarrow> z_number (map_of kvs ''lengthIn'') \<bind> positive;
     wd \<leftarrow> z_number (map_of kvs ''widthIn'') \<bind> positive;
     ht \<leftarrow> z_number (map_of kvs ''heightIn'') \<bind> positive;
     Some \<lparr> weightLbs = wt, lengthIn = ln, widthIn = wd, heightIn = ht \<rparr>
   }"

text \<open>\<open>RateRequestSchema.safeParse(input)\<close>: \<open>None\<close> is \<open>success: false\<close>.\<close>

definition RateRequestSchema :: "json \<Rightarrow> RateRequest option" where
  "RateRequestSchema v = do {
     kvs \<leftarrow> z_object (Some v);
     og \<leftarrow> AddressSchema (map_of kvs ''origin'');
     dn \<leftarrow> AddressSchema (map_of kvs ''destination'');
     ps \<leftarrow> z_array PackageSchema (map_of kvs ''packages'') \<bind> z_array_min 1;
     Some \<lparr> origin = og, destination = dn, packages = ps \<rparr>
   }"

text \<open>
  A quote's numbers come out of \<open>Number.parseFloat\<close> and \<open>Number.parseInt(_, 10)\<close>.
  They are floating-point values; the model keeps each as the call that produces it.
\<close>

datatype js_number = parseFloat string | parseInt string

record RateQuote =
  carrier :: string
  serviceCode :: string
  serviceName :: string
  totalChargeUSD :: js_number
  estimatedDeliveryDays :: "js_number option"
  guaranteedDeliveryDate :: "string option"

section \<open>carriers/ups/ups.types.ts: the response schemas\<close>

datatype UpsService = UpsService (svc_Code: string) (svc_Description: "string option")

datatype UpsMonetaryValue = UpsMonetaryValue (CurrencyCode: string) (MonetaryValue: string)

datatype UpsGuaranteedDelivery =
  UpsGuaranteedDelivery (gd_BusinessDaysInTransit: "string option")
    (ScheduledDeliveryDate: "string option")

datatype UpsArrival = UpsArrival (arrival_Date: "string option")

datatype UpsEstimatedArrival =
  UpsEstimatedArrival (ea_BusinessDaysInTransit: "string option") (Arrival: "UpsArrival option")

datatype UpsServiceSummary = UpsServiceSummary (EstimatedArrival: "UpsEstimatedArrival option")

datatype UpsTimeInTransit = UpsTimeInTransit (ServiceSummary: "UpsServiceSummary option")

datatype UpsRatedShipment =
  UpsRatedShipment (Service: UpsService) (TotalCharges: UpsMonetaryValue)
    (GuaranteedDelivery: "UpsGuaranteedDelivery option") (TimeInTransit: "UpsTimeInTransit option")

datatype UpsResponseStatus = UpsResponseStatus (rs_Code: string) (rs_Description: string)

datatype UpsRateResponse =
  UpsRateResponse (ResponseStatus: UpsResponseStatus) (RatedShipment: "UpsRatedShipment list")

definition UpsServiceSchema :: "json option \<Rightarrow> UpsService option" where
  "UpsServiceSchema v = do {
     kvs \<leftarrow> z_object v;
     c \<leftarrow> z_string (map_of kvs ''Code'');
     d \<leftarrow> z_optional z_string (map_of kvs ''Description'');
     Some (UpsService c d)
   }"

definition UpsMonetaryValueSchema :: "json option \<Rightarrow> UpsMonetaryValue option" where
  "UpsMonetaryValueSchema v = do {
     kvs \<leftarrow> z_object v;
     c \<leftarrow> z_string (map_of kvs ''CurrencyCode'');
     m \<leftarrow> z_string (map_of kvs ''MonetaryValue'');
     Some (UpsMonetaryValue c m)
   }"

definition GuaranteedDeliverySchema :: "json option \<Rightarrow> UpsGuaranteedDelivery option" where
  "GuaranteedDeliverySchema v = do {
     kvs \<leftarrow> z_object v;
     b \<leftarrow> z_optional z_string (map_of kvs ''BusinessDaysInTransit'');
     d \<leftarrow> z_optional z_string (map_of kvs ''ScheduledDeliveryDate'');
     Some (UpsGuaranteedDelivery b d)
   }"

definition ArrivalSchema :: "json option \<Rightarrow> UpsArrival option" where
  "ArrivalSchema v = do {
     kvs \<leftarrow> z_object v;
     d \<leftarrow> z_optional z_string (map_of kvs ''Date'');
     Some (UpsArrival d)
   }"

definition EstimatedArrivalSchema :: "json option \<Rightarrow> UpsEstimatedArrival option" where
  "EstimatedArrivalSchema v = do {
     kvs \<leftarrow> z_object v;
     b \<leftarrow> z_optional z_string (map_of kvs ''BusinessDaysInTransit'');
     a \<leftarrow> z_optional ArrivalSchema (map_of kvs ''Arrival'');
     Some (UpsEstimatedArrival b a)
   }"

definition ServiceSummarySchema :: "json option \<Rightarrow> UpsServiceSummary option" where
  "ServiceSummarySchema v = do {
     kvs \<leftarrow> z_object v;
     e \<leftarrow> z_optional EstimatedArrivalSchema (map_of kvs ''EstimatedArrival'');
     Some (UpsServiceSummary e)
   }"

definition TimeInTransitSchema :: "json option \<Rightarrow> UpsTimeInTransit option" where
  "TimeInTransitSchema v = do {
     kvs \<leftarrow> z_object v;
     s \<leftarrow> z_optional ServiceSummarySchema (map_of kvs ''ServiceSummary'');
     Some (UpsTimeInTransit s)
   }"

definition UpsRatedShipmentSchema :: "json option \<Rightarrow> UpsRatedShipment option" where
  "UpsRatedShipmentSchema v = do {
     kvs \<leftarrow> z_object v;
     sv \<leftarrow> UpsServiceSchema (map_of kvs ''Service'');
     tc \<leftarrow> UpsMonetaryValueSchema (map_of kvs ''TotalCharges'');
     gd \<leftarrow> z_optional GuaranteedDeliverySchema (map_of kvs ''GuaranteedDelivery'');
     tt \<leftarrow> z_optional TimeInTransitSchema (map_of kvs ''TimeInTransit'');
     Some (UpsRatedShipment sv tc gd tt)
   }"

text \<open>\<open>UpsRateResponseSchema.parse(data)\<close>: \<open>None\<close> is the \<open>ZodError\<close> it throws.\<close>

definition UpsRateResponseSchema :: "json \<Rightarrow> UpsRateResponse option" where
  "UpsRateResponseSchema v = do {
     top \<leftarrow> z_object (Some v);
     rr \<leftarrow> z_object (map_of top ''RateResponse'');
     resp \<leftarrow> z_object (map_of rr ''Response'');
     rs \<leftarrow> z_object (map_of resp ''ResponseStatus'');
     c \<leftarrow> z_string (map_of rs ''Code'');
     d \<leftarrow> z_string (map_of rs ''Description'');
     sh \<leftarrow> z_array UpsRatedShipmentSchema (map_of rr ''RatedShipment'');
     Some (UpsRateResponse (UpsResponseStatus c d) sh)
   }"

section \<open>carriers/ups/UpsMapper.ts\<close>

text \<open>\<open>if (address.line2)\<close> holds for a string that is present and not empty.\<close>

definition toUpsAddress :: "Address \<Rightarrow> json" where
  "toUpsAddress address =
     JObj [(''AddressLine'',
              JArr (JStr (line1 address) #
                    (case line2 address of
                       Some l \<Rightarrow> if l \<noteq> [] then [JStr l] else []
                     | None \<Rightarrow> []))),
           (''City'', JStr (city address)),
           (''StateProvinceCode'', JStr (stateCode address)),
           (''PostalCode'', JStr (postalCode address)),
           (''CountryCode'', JStr (countryCode address))]"

definition toUpsPackage :: "Package \<Rightarrow> json" where
  "toUpsPackage pkg =
     JObj [(''PackagingType'', JObj [(''Code'', JStr ''02''), (''Description'', JStr ''Package'')]),
           (''Dimensions'',
              JObj [(''UnitOfMeasurement'', JObj [(''Code'', JStr ''IN'')]),
                    (''Length'', JStr (string_of_int (lengthIn pkg))),
                    (''Width'', JStr (string_of_int (widthIn pkg))),
                    (''Height'', JStr (string_of_int (heightIn pkg)))]),
           (''PackageWeight'',
              JObj [(''UnitOfMeasurement'', JObj [(''Code'', JStr ''LBS'')]),
                    (''Weight'', JStr (string_of_int (weightLbs pkg)))])]"

definition toUpsRequest :: "RateRequest \<Rightarrow> json" where
  "toUpsRequest input =
     JObj [(''RateRequest'',
        JObj [(''Request'', JObj []),
              (''Shipment'',
                 JObj [(''Shipper'',
                          JObj [(''Name'', JStr ''Shipper''), (''ShipperNumber'', JStr []),
                                (''Address'', toUpsAddress (origin input))]),
                       (''ShipTo'',
                          JObj [(''Name'', JStr ''Recipient''),
                                (''Address'', toUpsAddress (destination input))]),
                       (''ShipFrom'',
                          JObj [(''Name'', JStr ''Sender''),
                                (''Address'', toUpsAddress (origin input))]),
                       (''NumOfPieces'', JStr (string_of_nat (length (packages input)))),
                       (''Package'', JArr (map toUpsPackage (packages input)))])])]"

text \<open>\<open>a ?? b\<close> on values that may be \<open>undefined\<close>.\<close>

definition nullish :: "'a option \<Rightarrow> 'a option \<Rightarrow> 'a option" where
  "nullish a b = (case a of Some x \<Rightarrow> Some x | None \<Rightarrow> b)"

definition fromUpsShipment :: "UpsRatedShipment \<Rightarrow> RateQuote" where
  "fromUpsShipment s =
     (let daysInTransit =
            nullish (GuaranteedDelivery s \<bind> gd_BusinessDaysInTransit)
              (TimeInTransit s \<bind> ServiceSummary \<bind> EstimatedArrival \<bind> ea_BusinessDaysInTransit);
          deliveryDate =
            nullish (GuaranteedDelivery s \<bind> ScheduledDeliveryDate)
              (TimeInTransit s \<bind> ServiceSummary \<bind> EstimatedArrival \<bind> Arrival \<bind> arrival_Date)
      in \<lparr> carrier = ''UPS'',
           serviceCode = svc_Code (Service s),
           serviceName = (case svc_Description (Service s) of
                            Some d \<Rightarrow> d | None \<Rightarrow> svc_Code (Service s)),
           totalChargeUSD = parseFloat (MonetaryValue (TotalCharges s)),
           estimatedDeliveryDays = map_option parseInt daysInTransit,
           guaranteedDeliveryDate = deliveryDate \<rparr>)"

definition fromUpsResponse :: "UpsRatedShipment list \<Rightarrow> RateQuote list" where
  "fromUpsResponse shipments = map fromUpsShipment shipments"

section \<open>carriers/ups/UpsRatingOperation.ts\<close>

datatype UpsRequestOption = Rate | Shop | Ratetimeintransit | Shoptimeintransit

fun requestOption_text :: "UpsRequestOption \<Rightarrow> string" where
  "requestOption_text Rate = ''Rate''"
| "requestOption_text Shop = ''Shop''"
| "requestOption_text Ratetimeintransit = ''Ratetimeintransit''"
| "requestOption_text Shoptimeintransit = ''Shoptimeintransit''"

text \<open>
  The operation holds its \<open>HttpClient\<close> (here the provider and the transport the
  client was built with) and the request option, \<open>Shop\<close> unless the constructor is
  given another.
\<close>

record 'w UpsRatingOperation =
  http_auth :: "'w ICarrierAuth"
  http_client :: "'w transport"
  requestOption :: UpsRequestOption

definition new_UpsRatingOperation ::
  "'w ICarrierAuth \<Rightarrow> 'w transport \<Rightarrow> UpsRequestOption option \<Rightarrow> 'w UpsRatingOperation" where
  "new_UpsRatingOperation auth client opt =
     \<lparr> http_auth = auth, http_client = client,
       requestOption = (case opt of None \<Rightarrow> Shop | Some x \<Rightarrow> x) \<rparr>"

definition ratingConfig :: "'w UpsRatingOperation \<Rightarrow> json \<Rightarrow> AxiosRequestConfig" where
  "ratingConfig this body =
     \<lparr> method = ''POST'',
       url = ''/api/rating/v2409/'' @ requestOption_text (requestOption this),
       data = Some body,
       headers = [] \<rparr>"

text \<open>The \<open>catch\<close> clause of \<open>fetchRates\<close>.\<close>

definition fetchRates_catch :: "thrown \<Rightarrow> thrown" where
  "fetchRates_catch error =
     (if instanceof_CarrierApiError error then error
      else new_CarrierApiError ''UPS rating request failed'' 0 None
             (if instanceof_Error error then Some error else None))"

definition fetchRates ::
  "runtime \<Rightarrow> 'w UpsRatingOperation \<Rightarrow> json \<Rightarrow> 'w \<times> event list
     \<Rightarrow> (thrown + UpsRateResponse) \<times> 'w \<times> event list" where
  "fetchRates rt this body s =
     (case request (http_auth this) (http_client this) (ratingConfig this body) s of
        (Inl error, s1) \<Rightarrow> (Inl (fetchRates_catch error), s1)
      | (Inr payload, s1) \<Rightarrow>
          (case UpsRateResponseSchema payload of
             None \<Rightarrow>
               (Inl (fetchRates_catch
                       (OtherError (zodMessage rt ''UpsRateResponseSchema'' payload))), s1)
           | Some parsed \<Rightarrow> (Inr parsed, s1)))"

definition execute ::
  "runtime \<Rightarrow> 'w UpsRatingOperation \<Rightarrow> json \<Rightarrow> 'w \<times> event list
     \<Rightarrow> (thrown + RateQuote list) \<times> 'w \<times> event list" where
  "execute rt this input s =
     (case RateRequestSchema input of
        None \<Rightarrow> (Inl (new_ValidationError (zodMessage rt ''RateRequestSchema'' input) None), s)
      | Some parsed \<Rightarrow>
          (case fetchRates rt this (toUpsRequest parsed) s of
             (Inl e, s1) \<Rightarrow> (Inl e, s1)
           | (Inr payload, s1) \<Rightarrow> (Inr (fromUpsResponse (RatedShipment payload)), s1)))"

subsection \<open>The doubles of the rating tests\<close>

definition VALID_REQUEST :: json where
  "VALID_REQUEST =
     JObj [(''origin'',
              JObj [(''line1'', JStr ''123 Main St''), (''city'', JStr ''New York''),
                    (''stateCode'', JStr ''NY''), (''postalCode'', JStr ''10001''),
                    (''countryCode'', JStr ''US'')]),
           (''destination'',
              JObj [(''line1'', JStr ''456 Oak Ave''), (''city'', JStr ''Los Angeles''),
                    (''stateCode'', JStr ''CA''), (''postalCode'', JStr ''90001''),
                    (''countryCode'', JStr ''US'')]),
           (''packages'',
              JArr [JObj [(''weightLbs'', JNum 5), (''lengthIn'', JNum 10),
                          (''widthIn'', JNum 8), (''heightIn'', JNum 6)]])]"

definition VALID_PARSED :: RateRequest where
  "VALID_PARSED =
     \<lparr> origin = \<lparr> line1 = ''123 Main St'', line2 = None, city = ''New York'',
                  stateCode = ''NY'', postalCode = ''10001'', countryCode = ''US'' \<rparr>,
       destination = \<lparr> line1 = ''456 Oak Ave'', line2 = None, city = ''Los Angeles'',
                       stateCode = ''CA'', postalCode = ''90001'', countryCode = ''US'' \<rparr>,
       packages = [\<lparr> weightLbs = 5, lengthIn = 10, widthIn = 8, heightIn = 6 \<rparr>] \<rparr>"

definition stubOperation :: "stub_world UpsRatingOperation" where
  "stubOperation = new_UpsRatingOperation (stubAuth [''tok'']) mockRequest None"

definition garbage :: stub_world where
  "garbage = \<lparr>callIndex = 0, queue = [Inr (JObj [(''garbage'', JBool True)])]\<rparr>"

section \<open>carriers/ups/register.ts\<close>

text \<open>
  The transport of the client that \<open>registerUpsCarrier\<close> builds works on the same world
  as the provider: the k-th \<open>client.request\<close> is answered by an oracle, with a latency
  that moves the clock. The operation registered under "ups:rating" is the rating
  operation over that provider and that client, with the default request option.
\<close>

type_synonym request_oracle = "nat \<Rightarrow> AxiosRequestConfig \<Rightarrow> nat \<times> (thrown + json)"

definition axios_request :: "request_oracle \<Rightarrow> world transport" where
  "axios_request net config w =
     (case net (requests w) config of
        (latency, outcome) \<Rightarrow>
          (outcome, w\<lparr>requests := requests w + 1, now := now w + int latency\<rparr>))"

definition registerUpsCarrier ::
  "runtime \<Rightarrow> post_oracle \<Rightarrow> request_oracle \<Rightarrow> world UpsRatingOperation" where
  "registerUpsCarrier rt post net =
     new_UpsRatingOperation (UpsAuthClient rt post) (axios_request net) None"

definition offline :: request_oracle where
  "offline k config = (0, Inl (networkError ''ECONNREFUSED''))"

definition ACCEPT_test :: AxiosRequestConfig where
  "ACCEPT_test = \<lparr> method = ''GET'', url = ''/test'', data = None,
                   headers = [(''Accept'', ''application/json'')] \<rparr>"

definition revokedPosts :: post_oracle where
  "revokedPosts = mockedPost [Inr (oauthResponse []),
                              Inl (upsAxiosError 401 ''10401'' ''ClientId is invalid'')]"

definition unauthorized :: request_oracle where
  "unauthorized k config = (0, Inl (axiosError 401))"

definition rejected401 :: world where
  "rejected401 = \<lparr> cachedToken = Some ''tok_abc123'', expiresAt = 14340000, now = 0,
                   posts = 1, requests = 1 \<rparr>"

definition revoked :: world where
  "revoked = \<lparr> cachedToken = None, expiresAt = 0, now = 0, posts = 2, requests = 1 \<rparr>"

section \<open>Facts about the doubles\<close>

lemma isAxiosError_axiosError: "isAxiosError (axiosError st)"
  by (simp add: isAxiosError_def axiosError_def)

lemma response_status_axiosError: "response_status (axiosError st) = Some st"
  by (simp add: response_status_def axiosError_def)

lemma accessToken_stubAuth:
  "accessToken (stubAuth tokens) w =
     (Inr (if callIndex w < length tokens then tokens ! callIndex w
           else if tokens \<noteq> [] then last tokens else ''tok_default''),
      w\<lparr>callIndex := callIndex w + 1\<rparr>)"
  by (simp add: stubAuth_def)

lemma clearToken_stubAuth: "clearToken (stubAuth tokens) w = w"
  by (simp add: stubAuth_def)

lemma mockRequest_Cons: "mockRequest config \<lparr>callIndex = i, queue = r # rs\<rparr> = (r, \<lparr>callIndex = i, queue = rs\<rparr>)"
  by (simp add: mockRequest_def)

section \<open>The executor: retry on 401\<close>

lemma retry_transport_bound:
  "length (filter isTransportCall (snd (snd (retryWithFreshToken auth client config (w, tr)))))
     \<le> length (filter isTransportCall tr) + 1"
proof (cases "accessToken auth (clearToken auth w)")
  case (Pair r w1)
  show ?thesis
  proof (cases r)
    case (Inl e)
    with Pair show ?thesis
      by (simp add: retryWithFreshToken_def call_accessToken_def call_clearToken_def
          isTransportCall_def)
  next
    case (Inr freshToken)
    with Pair show ?thesis
      by (cases "client (withToken config freshToken) w1")
        (simp add: retryWithFreshToken_def call_accessToken_def call_clearToken_def
          executeWithToken_def isTransportCall_def split: sum.splits)
  qed
qed

lemma request_transport_bound:
  "length (filter isTransportCall (snd (snd (request auth client config (w, tr)))))
     \<le> length (filter isTransportCall tr) + 2"
proof (cases "accessToken auth w")
  case (Pair r w1)
  show ?thesis
  proof (cases r)
    case (Inl e)
    with Pair show ?thesis
      by (simp add: request_def call_accessToken_def isTransportCall_def)
  next
    case (Inr token)
    obtain r2 w2 where ex: "client (withToken config token) w1 = (r2, w2)"
      by (cases "client (withToken config token) w1")
    have "length (filter isTransportCall
            (snd (snd (retryWithFreshToken auth client config
               (w2, tr @ [AccessTokenCall, TransportCall (withToken config token)])))))
          \<le> length (filter isTransportCall tr) + 2"
      using retry_transport_bound [of auth client config w2
          "tr @ [AccessTokenCall, TransportCall (withToken config token)]"]
      by (simp add: isTransportCall_def)
    with Pair Inr ex show ?thesis
      by (simp add: request_def call_accessToken_def executeWithToken_def isTransportCall_def
          split: sum.splits)
  qed
qed

text \<open>
  C1 (amended). When the first transport attempt fails with status 401, \<open>request\<close> calls
  \<open>clearToken\<close> once and then \<open>accessToken\<close> once. If that call returns a token,
  \<open>request\<close> calls the transport exactly once more, with the caller's envelope (method,
  url, body and every header other than Authorization as they were) and
  \<open>Authorization: Bearer <fresh token>\<close>, and returns the body of that attempt when it
  succeeds. If that call throws, its error leaves \<open>request\<close> unchanged and no further
  transport call is made. The trace lists the calls in order; the requests in it are
  written out, so that they are what the transport received.
\<close>

theorem request_401_retry:
  assumes first_token: "accessToken auth w = (Inr token, w1)"
    and first_attempt: "client (config\<lparr>headers := AList.update ''Authorization'' (''Bearer '' @ token) (headers config)\<rparr>) w1 = (Inl err, w2)"
    and unauthorized: "isAxiosError err \<and> response_status err = Some 401"
    and reacquire: "accessToken auth (clearToken auth w2) = (r3, w3)"
  shows "(case r3 of
           Inl e \<Rightarrow>
             request auth client config (w, tr) =
               (Inl e, w3,
                tr @ [AccessTokenCall,
                      TransportCall (config\<lparr>headers := AList.update ''Authorization'' (''Bearer '' @ token) (headers config)\<rparr>),
                      ClearTokenCall, AccessTokenCall])
         | Inr freshToken \<Rightarrow>
             snd (request auth client config (w, tr)) =
               (snd (client (config\<lparr>headers := AList.update ''Authorization'' (''Bearer '' @ freshToken) (headers config)\<rparr>) w3),
                tr @ [AccessTokenCall,
                      TransportCall (config\<lparr>headers := AList.update ''Authorization'' (''Bearer '' @ token) (headers config)\<rparr>),
                      ClearTokenCall, AccessTokenCall,
                      TransportCall (config\<lparr>headers := AList.update ''Authorization'' (''Bearer '' @ freshToken) (headers config)\<rparr>)])
             \<and> map_of (AList.update ''Authorization'' (''Bearer '' @ freshToken) (headers config)) ''Authorization'' = Some (''Bearer '' @ freshToken)
             \<and> (\<forall>k. k \<noteq> ''Authorization''
                   \<longrightarrow> map_of (AList.update ''Authorization'' (''Bearer '' @ freshToken) (headers config)) k = map_of (headers config) k)
             \<and> (\<forall>body. fst (client (config\<lparr>headers := AList.update ''Authorization'' (''Bearer '' @ freshToken) (headers config)\<rparr>) w3) = Inr body
                   \<longrightarrow> fst (request auth client config (w, tr)) = Inr body))"
proof (cases r3)
  case (Inl e)
  with assms show ?thesis
    by (simp add: request_def retryWithFreshToken_def call_accessToken_def call_clearToken_def
        executeWithToken_def withToken_def)
next
  case (Inr freshToken)
  obtain r4 w4 where retry: "client (config\<lparr>headers := AList.update ''Authorization'' (''Bearer '' @ freshToken) (headers config)\<rparr>) w3 = (r4, w4)"
    by (cases "client (config\<lparr>headers := AList.update ''Authorization'' (''Bearer '' @ freshToken) (headers config)\<rparr>) w3")
  from assms Inr retry show ?thesis
    by (simp add: request_def retryWithFreshToken_def call_accessToken_def call_clearToken_def
        executeWithToken_def withToken_def AList.update_conv' split: sum.splits)
qed

theorem request_401_retry_witness:
  "request (stubAuth [''tok_stale'', ''tok_fresh'']) mockRequest ACCEPT_test (retry401, []) =
     (Inr (JObj [(''ok'', JBool True)]),
      \<lparr>callIndex = 2, queue = []\<rparr>,
      [AccessTokenCall,
       TransportCall \<lparr> method = ''GET'', url = ''/test'', data = None,
                       headers = [(''Accept'', ''application/json''),
                                  (''Authorization'', ''Bearer tok_stale'')] \<rparr>,
       ClearTokenCall, AccessTokenCall,
       TransportCall \<lparr> method = ''GET'', url = ''/test'', data = None,
                       headers = [(''Accept'', ''application/json''),
                                  (''Authorization'', ''Bearer tok_fresh'')] \<rparr>])
   \<and> map_of (AList.update ''Authorization'' (''Bearer '' @ ''tok_fresh'') (headers ACCEPT_test)) ''Authorization'' = Some ''Bearer tok_fresh''
   \<and> map_of (AList.update ''Authorization'' (''Bearer '' @ ''tok_fresh'') (headers ACCEPT_test)) ''Accept'' = Some ''application/json''"
proof -
  let ?auth = "stubAuth [''tok_stale'', ''tok_fresh'']"
  let ?e = "axiosError 401"
  let ?ok = "JObj [(''ok'', JBool True)]"
  have h1: "accessToken ?auth retry401 = (Inr ''tok_stale'', \<lparr>callIndex = 1, queue = [Inl ?e, Inr ?ok]\<rparr>)"
    by (simp add: accessToken_stubAuth retry401_def)
  have h2: "mockRequest (ACCEPT_test\<lparr>headers := AList.update ''Authorization'' (''Bearer '' @ ''tok_stale'') (headers ACCEPT_test)\<rparr>) \<lparr>callIndex = 1, queue = [Inl ?e, Inr ?ok]\<rparr>
             = (Inl ?e, \<lparr>callIndex = 1, queue = [Inr ?ok]\<rparr>)"
    by (rule mockRequest_Cons)
  have h3: "isAxiosError ?e \<and> response_status ?e = Some 401"
    by (simp add: isAxiosError_axiosError response_status_axiosError)
  have h4: "accessToken ?auth (clearToken ?auth \<lparr>callIndex = 1, queue = [Inr ?ok]\<rparr>)
             = (Inr ''tok_fresh'', \<lparr>callIndex = 2, queue = [Inr ?ok]\<rparr>)"
    by (simp add: accessToken_stubAuth clearToken_stubAuth)
  have h5: "mockRequest (ACCEPT_test\<lparr>headers := AList.update ''Authorization'' (''Bearer '' @ ''tok_fresh'') (headers ACCEPT_test)\<rparr>) \<lparr>callIndex = 2, queue = [Inr ?ok]\<rparr>
             = (Inr ?ok, \<lparr>callIndex = 2, queue = []\<rparr>)"
    by (rule mockRequest_Cons)
  have k: "''Accept'' \<noteq> ''Authorization''" by simp
  note inst = request_401_retry [where client = mockRequest and config = ACCEPT_test
      and tr = "[]", OF h1 h2 h3 h4]
  from inst have run: "snd (request ?auth mockRequest ACCEPT_test (retry401, [])) =
               (snd (mockRequest (ACCEPT_test\<lparr>headers := AList.update ''Authorization'' (''Bearer '' @ ''tok_fresh'') (headers ACCEPT_test)\<rparr>) \<lparr>callIndex = 2, queue = [Inr ?ok]\<rparr>),
                [] @ [AccessTokenCall, TransportCall (ACCEPT_test\<lparr>headers := AList.update ''Authorization'' (''Bearer '' @ ''tok_stale'') (headers ACCEPT_test)\<rparr>),
                      ClearTokenCall, AccessTokenCall, TransportCall (ACCEPT_test\<lparr>headers := AList.update ''Authorization'' (''Bearer '' @ ''tok_fresh'') (headers ACCEPT_test)\<rparr>)])"
    and auth: "map_of (AList.update ''Authorization'' (''Bearer '' @ ''tok_fresh'') (headers ACCEPT_test)) ''Authorization'' = Some (''Bearer '' @ ''tok_fresh'')"
    and rest: "\<forall>k. k \<noteq> ''Authorization''
                 \<longrightarrow> map_of (AList.update ''Authorization'' (''Bearer '' @ ''tok_fresh'') (headers ACCEPT_test)) k = map_of (headers ACCEPT_test) k"
    and body: "\<forall>body. fst (mockRequest (ACCEPT_test\<lparr>headers := AList.update ''Authorization'' (''Bearer '' @ ''tok_fresh'') (headers ACCEPT_test)\<rparr>) \<lparr>callIndex = 2, queue = [Inr ?ok]\<rparr>) = Inr body
                 \<longrightarrow> fst (request ?auth mockRequest ACCEPT_test (retry401, [])) = Inr body"
    by simp_all
  have accept: "map_of (AList.update ''Authorization'' (''Bearer '' @ ''tok_fresh'') (headers ACCEPT_test)) ''Accept'' = map_of (headers ACCEPT_test) ''Accept''"
    by (rule rest [rule_format, OF k])
  have res: "fst (request ?auth mockRequest ACCEPT_test (retry401, [])) = Inr ?ok"
    by (rule body [rule_format]) (simp add: mockRequest_Cons)
  from run have st: "snd (request ?auth mockRequest ACCEPT_test (retry401, [])) =
       (\<lparr>callIndex = 2, queue = []\<rparr>,
        [AccessTokenCall,
         TransportCall \<lparr> method = ''GET'', url = ''/test'', data = None,
                         headers = [(''Accept'', ''application/json''),
                                    (''Authorization'', ''Bearer tok_stale'')] \<rparr>,
         ClearTokenCall, AccessTokenCall,
         TransportCall \<lparr> method = ''GET'', url = ''/test'', data = None,
                         headers = [(''Accept'', ''application/json''),
                                    (''Authorization'', ''Bearer tok_fresh'')] \<rparr>])"
    by (simp add: mockRequest_Cons ACCEPT_test_def)
  have a1: "map_of (AList.update ''Authorization'' (''Bearer '' @ ''tok_fresh'') (headers ACCEPT_test)) ''Authorization'' = Some ''Bearer tok_fresh''"
    using auth by simp
  have a2: "map_of (AList.update ''Authorization'' (''Bearer '' @ ''tok_fresh'') (headers ACCEPT_test)) ''Accept'' = Some ''application/json''"
    using accept by (simp add: ACCEPT_test_def)
  from res st have "request ?auth mockRequest ACCEPT_test (retry401, []) =
     (Inr ?ok, \<lparr>callIndex = 2, queue = []\<rparr>,
        [AccessTokenCall,
         TransportCall \<lparr> method = ''GET'', url = ''/test'', data = None,
                         headers = [(''Accept'', ''application/json''),
                                    (''Authorization'', ''Bearer tok_stale'')] \<rparr>,
         ClearTokenCall, AccessTokenCall,
         TransportCall \<lparr> method = ''GET'', url = ''/test'', data = None,
                         headers = [(''Accept'', ''application/json''),
                                    (''Authorization'', ''Bearer tok_fresh'')] \<rparr>])"
    by (rule prod_eqI [of _ "(_, _)", simplified])
  with a1 a2 show ?thesis by (intro conjI)
qed

text \<open>
  C2 (amended). When the first attempt and the retried attempt both fail with status
  401, \<open>request\<close> throws an \<open>AuthenticationError\<close> whose message is
  "Authentication failed after token refresh" (capital A) and whose cause is the second
  failure; and no execution of \<open>request\<close> makes more than two transport calls.
\<close>

theorem request_double_401:
  "(accessToken auth w = (Inr token, w1)
      \<and> client (withToken config token) w1 = (Inl err, w2)
      \<and> isAxiosError err \<and> response_status err = Some 401
      \<and> accessToken auth (clearToken auth w2) = (Inr freshToken, w3)
      \<and> client (withToken config freshToken) w3 = (Inl retryError, w4)
      \<and> isAxiosError retryError \<and> response_status retryError = Some 401
     \<longrightarrow> request auth client config (w, tr) =
          (Inl (new_AuthenticationError ''Authentication failed after token refresh''
                  (Some retryError)),
           w4,
           tr @ [AccessTokenCall, TransportCall (withToken config token),
                 ClearTokenCall, AccessTokenCall,
                 TransportCall (withToken config freshToken)]))
   \<and> (\<forall>s. length (filter isTransportCall (snd (snd (request auth client config s))))
            \<le> length (filter isTransportCall (snd s)) + 2)"
proof (intro conjI impI allI)
  fix s :: "'a \<times> event list"
  show "length (filter isTransportCall (snd (snd (request auth client config s))))
            \<le> length (filter isTransportCall (snd s)) + 2"
    using request_transport_bound [of auth client config "fst s" "snd s"] by simp
next
  assume "accessToken auth w = (Inr token, w1)
      \<and> client (withToken config token) w1 = (Inl err, w2)
      \<and> isAxiosError err \<and> response_status err = Some 401
      \<and> accessToken auth (clearToken auth w2) = (Inr freshToken, w3)
      \<and> client (withToken config freshToken) w3 = (Inl retryError, w4)
      \<and> isAxiosError retryError \<and> response_status retryError = Some 401"
  then show "request auth client config (w, tr) =
          (Inl (new_AuthenticationError ''Authentication failed after token refresh''
                  (Some retryError)),
           w4,
           tr @ [AccessTokenCall, TransportCall (withToken config token),
                 ClearTokenCall, AccessTokenCall,
                 TransportCall (withToken config freshToken)])"
    by (simp add: request_def retryWithFreshToken_def call_accessToken_def call_clearToken_def
      executeWithToken_def)
qed

theorem request_double_401_witness:
  "request (stubAuth [''tok_stale'', ''tok_also_stale'']) mockRequest GET_test (double401, []) =
     (Inl (new_AuthenticationError ''Authentication failed after token refresh''
                  (Some (axiosError 401))),
      \<lparr>callIndex = 2, queue = []\<rparr>,
      [AccessTokenCall, TransportCall (withToken GET_test ''tok_stale''),
       ClearTokenCall, AccessTokenCall, TransportCall (withToken GET_test ''tok_also_stale'')])
   \<and> length (filter isTransportCall (snd (snd 
        (request (stubAuth [''tok_stale'', ''tok_also_stale'']) mockRequest GET_test (double401, []))))) \<le> 2"
proof -
  let ?auth = "stubAuth [''tok_stale'', ''tok_also_stale'']"
  let ?e = "axiosError 401"
  have h1: "accessToken ?auth double401 = (Inr ''tok_stale'', \<lparr>callIndex = 1, queue = [Inl ?e, Inl ?e]\<rparr>)"
    by (simp add: accessToken_stubAuth double401_def)
  have h2: "mockRequest (withToken GET_test ''tok_stale'') \<lparr>callIndex = 1, queue = [Inl ?e, Inl ?e]\<rparr>
             = (Inl ?e, \<lparr>callIndex = 1, queue = [Inl ?e]\<rparr>)"
    by (rule mockRequest_Cons)
  have h3: "accessToken ?auth (clearToken ?auth \<lparr>callIndex = 1, queue = [Inl ?e]\<rparr>)
             = (Inr ''tok_also_stale'', \<lparr>callIndex = 2, queue = [Inl ?e]\<rparr>)"
    by (simp add: accessToken_stubAuth clearToken_stubAuth)
  have h4: "mockRequest (withToken GET_test ''tok_also_stale'') \<lparr>callIndex = 2, queue = [Inl ?e]\<rparr>
             = (Inl ?e, \<lparr>callIndex = 2, queue = []\<rparr>)"
    by (rule mockRequest_Cons)
  have hyp: "accessToken ?auth double401 = (Inr ''tok_stale'', \<lparr>callIndex = 1, queue = [Inl ?e, Inl ?e]\<rparr>)
      \<and> mockRequest (withToken GET_test ''tok_stale'') \<lparr>callIndex = 1, queue = [Inl ?e, Inl ?e]\<rparr>
             = (Inl ?e, \<lparr>callIndex = 1, queue = [Inl ?e]\<rparr>)
      \<and> isAxiosError ?e \<and> response_status ?e = Some 401
      \<and> accessToken ?auth (clearToken ?auth \<lparr>callIndex = 1, queue = [Inl ?e]\<rparr>)
             = (Inr ''tok_also_stale'', \<lparr>callIndex = 2, queue = [Inl ?e]\<rparr>)
      \<and> mockRequest (withToken GET_test ''tok_also_stale'') \<lparr>callIndex = 2, queue = [Inl ?e]\<rparr>
             = (Inl ?e, \<lparr>callIndex = 2, queue = []\<rparr>)
      \<and> isAxiosError ?e \<and> response_status ?e = Some 401"
    using h1 h2 h3 h4 isAxiosError_axiosError [of 401] response_status_axiosError [of 401]
    by blast
  have run: "request ?auth mockRequest GET_test (double401, []) =
     (Inl (new_AuthenticationError ''Authentication failed after token refresh'' (Some ?e)),
      \<lparr>callIndex = 2, queue = []\<rparr>,
      [] @ [AccessTokenCall, TransportCall (withToken GET_test ''tok_stale''),
       ClearTokenCall, AccessTokenCall, TransportCall (withToken GET_test ''tok_also_stale'')])"
    by (rule request_double_401 [THEN conjunct1, THEN mp, OF hyp])
  have bound: "length (filter isTransportCall (snd (snd (request ?auth mockRequest GET_test (double401, [])))))
     \<le> length (filter isTransportCall (snd (double401, []::event list))) + 2"
    by (rule request_double_401 [THEN conjunct2, THEN spec])
  from run bound show ?thesis by simp
qed

text \<open>
  C2 as stated fails on the text of the message: the claim has it start with a lower-case
  letter, the code writes "Authentication failed after token refresh".
\<close>

theorem request_double_401_message_counterexample:
  "message (projl (fst (request (stubAuth [''tok_stale'', ''tok_also_stale'']) mockRequest GET_test
       (double401, []))))
     = ''Authentication failed after token refresh''
   \<and> message (projl (fst (request (stubAuth [''tok_stale'', ''tok_also_stale'']) mockRequest GET_test
       (double401, []))))
     \<noteq> ''authentication failed after token refresh''"
  by (simp add: request_def retryWithFreshToken_def call_accessToken_def call_clearToken_def
      executeWithToken_def stubAuth_def mockRequest_def GET_test_def axiosError_def
      isAxiosError_def response_status_def double401_def new_AuthenticationError_def)

section \<open>The executor: classification of failures\<close>

text \<open>
  C5. A transport failure that the 401 path does not handle is classified by
  \<open>toStructuredError\<close>: status 429 gives a \<open>RateLimitError\<close>; any other status gives a
  \<open>CarrierApiError\<close> with exactly that status; an axios error without a response gives
  a \<open>CarrierApiError\<close> with status 0; anything that is not an axios error gives a
  \<open>CarrierApiError\<close> with status 0, and when it is an \<open>Error\<close> it is kept as the cause.
  The last two conjuncts tie this to \<open>request\<close>: a first attempt that fails with
  anything but a 401, and a retried attempt that fails with anything but a 401, are
  reported as \<open>toStructuredError\<close> of that failure.
\<close>

theorem toStructuredError_classification:
  "(isAxiosError e \<and> response_status e = Some 429
      \<longrightarrow> toStructuredError e = new_RateLimitError None (Some e)
          \<and> name (toStructuredError e) = RateLimitError)
   \<and> (isAxiosError e \<and> response_status e = Some st \<and> st \<noteq> 429
      \<longrightarrow> toStructuredError e = new_CarrierApiError (''HTTP '' @ string_of_int st) st None (Some e)
          \<and> name (toStructuredError e) = CarrierApiError
          \<and> httpStatus (toStructuredError e) = Some st)
   \<and> (isAxiosError e \<and> response_status e = None
      \<longrightarrow> toStructuredError e = new_CarrierApiError (message e) 0 None (Some e)
          \<and> name (toStructuredError e) = CarrierApiError
          \<and> httpStatus (toStructuredError e) = Some 0)
   \<and> (\<not> isAxiosError e
      \<longrightarrow> name (toStructuredError e) = CarrierApiError
          \<and> httpStatus (toStructuredError e) = Some 0)
   \<and> (\<not> isAxiosError e \<and> instanceof_Error e
      \<longrightarrow> toStructuredError e = new_CarrierApiError (message e) 0 None (Some e)
          \<and> cause (toStructuredError e) = Some e)
   \<and> (accessToken auth w = (Inr token, w1)
        \<and> client (withToken config token) w1 = (Inl e, w2)
        \<and> \<not> (isAxiosError e \<and> response_status e = Some 401)
      \<longrightarrow> fst (request auth client config (w, tr)) = Inl (toStructuredError e))
   \<and> (accessToken auth w = (Inr token, w1)
        \<and> client (withToken config token) w1 = (Inl e1, w2)
        \<and> isAxiosError e1 \<and> response_status e1 = Some 401
        \<and> accessToken auth (clearToken auth w2) = (Inr freshToken, w3)
        \<and> client (withToken config freshToken) w3 = (Inl e, w4)
        \<and> \<not> (isAxiosError e \<and> response_status e = Some 401)
      \<longrightarrow> fst (request auth client config (w, tr)) = Inl (toStructuredError e))"
proof (intro conjI impI)
  assume "isAxiosError e \<and> response_status e = Some 429"
  then show "toStructuredError e = new_RateLimitError None (Some e)"
    and "name (toStructuredError e) = RateLimitError"
    by (simp_all add: toStructuredError_def new_RateLimitError_def)
next
  assume "isAxiosError e \<and> response_status e = Some st \<and> st \<noteq> 429"
  then show "toStructuredError e = new_CarrierApiError (''HTTP '' @ string_of_int st) st None (Some e)"
    and "name (toStructuredError e) = CarrierApiError"
    and "httpStatus (toStructuredError e) = Some st"
    by (simp_all add: toStructuredError_def new_CarrierApiError_def)
next
  assume "isAxiosError e \<and> response_status e = None"
  then show "toStructuredError e = new_CarrierApiError (message e) 0 None (Some e)"
    and "name (toStructuredError e) = CarrierApiError"
    and "httpStatus (toStructuredError e) = Some 0"
    by (simp_all add: toStructuredError_def new_CarrierApiError_def)
next
  assume "\<not> isAxiosError e"
  then show "name (toStructuredError e) = CarrierApiError"
    and "httpStatus (toStructuredError e) = Some 0"
    by (simp_all add: toStructuredError_def new_CarrierApiError_def)
next
  assume "\<not> isAxiosError e \<and> instanceof_Error e"
  then show "toStructuredError e = new_CarrierApiError (message e) 0 None (Some e)"
    and "cause (toStructuredError e) = Some e"
    by (simp_all add: toStructuredError_def new_CarrierApiError_def)
next
  assume "accessToken auth w = (Inr token, w1)
        \<and> client (withToken config token) w1 = (Inl e, w2)
        \<and> \<not> (isAxiosError e \<and> response_status e = Some 401)"
  then show "fst (request auth client config (w, tr)) = Inl (toStructuredError e)"
    by (auto simp add: request_def call_accessToken_def executeWithToken_def)
next
  assume "accessToken auth w = (Inr token, w1)
        \<and> client (withToken config token) w1 = (Inl e1, w2)
        \<and> isAxiosError e1 \<and> response_status e1 = Some 401
        \<and> accessToken auth (clearToken auth w2) = (Inr freshToken, w3)
        \<and> client (withToken config freshToken) w3 = (Inl e, w4)
        \<and> \<not> (isAxiosError e \<and> response_status e = Some 401)"
  then show "fst (request auth client config (w, tr)) = Inl (toStructuredError e)"
    by (auto simp add: request_def retryWithFreshToken_def call_accessToken_def
        call_clearToken_def executeWithToken_def)
qed

theorem toStructuredError_classification_witness:
  "toStructuredError (axiosError 429) = new_RateLimitError None (Some (axiosError 429))
   \<and> toStructuredError (axiosError 500)
       = new_CarrierApiError ''HTTP 500'' 500 None (Some (axiosError 500))
   \<and> toStructuredError (networkError ''ECONNREFUSED'')
       = new_CarrierApiError ''ECONNREFUSED'' 0 None (Some (networkError ''ECONNREFUSED''))
   \<and> httpStatus (toStructuredError (NonError (JStr ''boom''))) = Some 0
   \<and> toStructuredError (OtherError ''boom'')
       = new_CarrierApiError ''boom'' 0 None (Some (OtherError ''boom''))
   \<and> fst (request (stubAuth [''tok'']) mockRequest GET_test (failing500, []))
       = Inl (new_CarrierApiError ''HTTP 500'' 500 None (Some (axiosError 500)))
   \<and> fst (request (stubAuth [''tok'']) mockRequest GET_test (retry429, []))
       = Inl (new_RateLimitError None (Some (axiosError 429)))"
proof -
  let ?auth = "stubAuth [''tok'']"
  have s500: "string_of_int 500 = ''500''"
    by (simp add: string_of_int_def string_of_nat.simps)
  have c1: "toStructuredError (axiosError 429) = new_RateLimitError None (Some (axiosError 429))"
    using toStructuredError_classification [where e = "axiosError 429", THEN conjunct1]
    by (simp add: isAxiosError_axiosError response_status_axiosError)
  have c2: "toStructuredError (axiosError 500)
       = new_CarrierApiError ''HTTP 500'' 500 None (Some (axiosError 500))"
    using toStructuredError_classification [where e = "axiosError 500" and st = 500,
        THEN conjunct2, THEN conjunct1]
    by (simp add: isAxiosError_axiosError response_status_axiosError s500)
  have c3: "toStructuredError (networkError ''ECONNREFUSED'')
       = new_CarrierApiError ''ECONNREFUSED'' 0 None (Some (networkError ''ECONNREFUSED''))"
    using toStructuredError_classification [where e = "networkError ''ECONNREFUSED''",
        THEN conjunct2, THEN conjunct2, THEN conjunct1]
    by (simp add: isAxiosError_def response_status_def networkError_def)
  have c4: "httpStatus (toStructuredError (NonError (JStr ''boom''))) = Some 0"
    using toStructuredError_classification [where e = "NonError (JStr ''boom'')",
        THEN conjunct2, THEN conjunct2, THEN conjunct2, THEN conjunct1]
    by (simp add: isAxiosError_def)
  have c5: "toStructuredError (OtherError ''boom'')
       = new_CarrierApiError ''boom'' 0 None (Some (OtherError ''boom''))"
    using toStructuredError_classification [where e = "OtherError ''boom''",
        THEN conjunct2, THEN conjunct2, THEN conjunct2, THEN conjunct2, THEN conjunct1]
    by (simp add: isAxiosError_def instanceof_Error_def)
  have h6: "accessToken ?auth failing500 = (Inr ''tok'', \<lparr>callIndex = 1, queue = [Inl (axiosError 500)]\<rparr>)
        \<and> mockRequest (withToken GET_test ''tok'') \<lparr>callIndex = 1, queue = [Inl (axiosError 500)]\<rparr>
            = (Inl (axiosError 500), \<lparr>callIndex = 1, queue = []\<rparr>)
        \<and> \<not> (isAxiosError (axiosError 500) \<and> response_status (axiosError 500) = Some 401)"
    by (simp add: accessToken_stubAuth failing500_def mockRequest_Cons response_status_axiosError)
  have c6: "fst (request ?auth mockRequest GET_test (failing500, []))
       = Inl (toStructuredError (axiosError 500))"
    by (rule toStructuredError_classification [where tr = "[]" and client = mockRequest and config = GET_test,
        THEN conjunct2, THEN conjunct2, THEN conjunct2, THEN conjunct2, THEN conjunct2,
        THEN conjunct1, THEN mp, OF h6])
  have h7: "accessToken ?auth retry429
          = (Inr ''tok'', \<lparr>callIndex = 1, queue = [Inl (axiosError 401), Inl (axiosError 429)]\<rparr>)
        \<and> mockRequest (withToken GET_test ''tok'')
            \<lparr>callIndex = 1, queue = [Inl (axiosError 401), Inl (axiosError 429)]\<rparr>
            = (Inl (axiosError 401), \<lparr>callIndex = 1, queue = [Inl (axiosError 429)]\<rparr>)
        \<and> isAxiosError (axiosError 401) \<and> response_status (axiosError 401) = Some 401
        \<and> accessToken ?auth (clearToken ?auth \<lparr>callIndex = 1, queue = [Inl (axiosError 429)]\<rparr>)
            = (Inr ''tok'', \<lparr>callIndex = 2, queue = [Inl (axiosError 429)]\<rparr>)
        \<and> mockRequest (withToken GET_test ''tok'') \<lparr>callIndex = 2, queue = [Inl (axiosError 429)]\<rparr>
            = (Inl (axiosError 429), \<lparr>callIndex = 2, queue = []\<rparr>)
        \<and> \<not> (isAxiosError (axiosError 429) \<and> response_status (axiosError 429) = Some 401)"
    by (simp add: accessToken_stubAuth clearToken_stubAuth retry429_def mockRequest_Cons
        isAxiosError_axiosError response_status_axiosError)
  have c7: "fst (request ?auth mockRequest GET_test (retry429, []))
       = Inl (toStructuredError (axiosError 429))"
    by (rule toStructuredError_classification [where tr = "[]" and client = mockRequest and config = GET_test,
        THEN conjunct2, THEN conjunct2, THEN conjunct2, THEN conjunct2, THEN conjunct2,
        THEN conjunct2, THEN mp, OF h7])
  from c1 c2 c3 c4 c5 c6 c7 show ?thesis by simp
qed

section \<open>The token provider\<close>

lemma z_string_Some: "z_string v = Some s \<longleftrightarrow> v = Some (JStr s)"
  by (simp add: z_string_def split: option.splits json.splits)

lemma z_object_Some: "z_object v = Some kvs \<longleftrightarrow> v = Some (JObj kvs)"
  by (simp add: z_object_def split: option.splits json.splits)

lemma positive_Some: "positive n = Some m \<longleftrightarrow> m = n \<and> 0 < n"
  by (auto simp: positive_def)

lemma nonnegative_Some: "nonnegative n = Some m \<longleftrightarrow> m = n \<and> 0 \<le> n"
  by (auto simp: nonnegative_def)

lemma TokenResponseSchema_Some:
  "TokenResponseSchema rt body = Some p \<longleftrightarrow>
     (\<exists>kvs. body = JObj kvs
        \<and> map_of kvs ''token_type'' = Some (JStr (token_type p))
        \<and> map_of kvs ''issued_at'' = Some (JStr (issued_at p))
        \<and> map_of kvs ''client_id'' = Some (JStr (client_id p))
        \<and> map_of kvs ''access_token'' = Some (JStr (access_token p))
        \<and> map_of kvs ''scope'' = Some (JStr (scope p))
        \<and> Number rt (map_of kvs ''expires_in'') = Some (expires_in p) \<and> 0 < expires_in p
        \<and> Number rt (map_of kvs ''refresh_count'') = Some (refresh_count p) \<and> 0 \<le> refresh_count p
        \<and> map_of kvs ''status'' = Some (JStr (status_field p)))"
  by (cases p)
    (simp add: TokenResponseSchema_def bind_eq_Some_conv z_string_Some z_object_Some
      positive_Some nonnegative_Some z_coerce_number_def)

lemma authenticate_posts:
  "posts (snd (authenticate rt post w)) = posts w + 1"
  by (simp add: authenticate_def Let_def split: prod.splits sum.splits option.splits)

lemma authenticate_success:
  assumes "post (posts w) = (latency, Inr body)" and "TokenResponseSchema rt body = Some parsed"
  shows "authenticate rt post w =
     (Inr (access_token parsed),
      w\<lparr>posts := posts w + 1, now := now w + int latency,
        cachedToken := Some (access_token parsed),
        expiresAt := now w + int latency + (expires_in parsed - 60) * 1000\<rparr>)"
  using assms by (simp add: authenticate_def Let_def EXPIRY_BUFFER_S_def)

lemma authenticate_malformed:
  assumes "post (posts w) = (latency, Inr body)" and "TokenResponseSchema rt body = None"
  shows "authenticate rt post w =
     (Inl (new_CarrierApiError
             (''UPS OAuth request failed: '' @ zodMessage rt ''TokenResponseSchema'' body) 0 None
             (Some (OtherError (zodMessage rt ''TokenResponseSchema'' body)))),
      w\<lparr>posts := posts w + 1, now := now w + int latency\<rparr>)"
  using assms
  by (simp add: authenticate_def Let_def UpsAuthClient_toStructuredError_def isAxiosError_def
      instanceof_Error_def)

lemma authenticate_rejected:
  assumes "post (posts w) = (latency, Inl error)"
  shows "authenticate rt post w =
     (Inl (UpsAuthClient_toStructuredError error),
      w\<lparr>posts := posts w + 1, now := now w + int latency\<rparr>)"
  using assms by (simp add: authenticate_def Let_def)

lemma accessToken_miss:
  "cachedToken w = None \<or> expiresAt w \<le> now w
     \<Longrightarrow> UpsAuthClient_accessToken rt post w = authenticate rt post w"
  by (auto simp: UpsAuthClient_accessToken_def)

lemmas schema_eval = TokenResponseSchema_def oauthResponse_def z_object_def z_string_def
  z_coerce_number_def node_def Number_js_def positive_def nonnegative_def

lemma TokenResponseSchema_61:
  "TokenResponseSchema node (oauthResponse [(''expires_in'', JStr ''61'')]) =
     Some \<lparr> token_type = ''Bearer'', issued_at = ''1718000000000'',
            client_id = ''test-client-id'', access_token = ''tok_abc123'', scope = ''public'',
            expires_in = 61, refresh_count = 0, status_field = ''approved'' \<rparr>"
  by (simp add: schema_eval)

lemma TokenResponseSchema_refreshed:
  "TokenResponseSchema node (oauthResponse [(''access_token'', JStr ''tok_refreshed'')]) =
     Some \<lparr> token_type = ''Bearer'', issued_at = ''1718000000000'',
            client_id = ''test-client-id'', access_token = ''tok_refreshed'', scope = ''public'',
            expires_in = 14400, refresh_count = 0, status_field = ''approved'' \<rparr>"
  by (simp add: schema_eval)

lemma TokenResponseSchema_oauthResponse:
  "TokenResponseSchema node (oauthResponse []) =
     Some \<lparr> token_type = ''Bearer'', issued_at = ''1718000000000'',
            client_id = ''test-client-id'', access_token = ''tok_abc123'', scope = ''public'',
            expires_in = 14400, refresh_count = 0, status_field = ''approved'' \<rparr>"
  by (simp add: TokenResponseSchema_def oauthResponse_def z_object_def z_string_def
      z_coerce_number_def node_def Number_js_def positive_def nonnegative_def)

lemma first_authentication:
  "UpsAuthClient_accessToken node (mockedPost [Inr (oauthResponse [])]) (new_world 0)
     = (Inr ''tok_abc123'', cached)"
proof -
  have "UpsAuthClient_accessToken node (mockedPost [Inr (oauthResponse [])]) (new_world 0)
     = authenticate node (mockedPost [Inr (oauthResponse [])]) (new_world 0)"
    by (rule accessToken_miss) (simp add: new_world_def)
  also have "\<dots> = (Inr ''tok_abc123'', cached)"
    using authenticate_success [of "mockedPost [Inr (oauthResponse [])]" "new_world 0" 0
        "oauthResponse []" node, OF _ TokenResponseSchema_oauthResponse]
    by (simp add: mockedPost_def new_world_def cached_def)
  finally show ?thesis .
qed

lemma TokenResponseSchema_minimalBody: "TokenResponseSchema node minimalBody = None"
  by (simp add: schema_eval minimalBody_def)

lemma TokenResponseSchema_None:
  "TokenResponseSchema rt body = None \<longleftrightarrow>
     \<not> (\<exists>kvs tt ia ci at sc st ei rc. body = JObj kvs
        \<and> map_of kvs ''token_type'' = Some (JStr tt)
        \<and> map_of kvs ''issued_at'' = Some (JStr ia)
        \<and> map_of kvs ''client_id'' = Some (JStr ci)
        \<and> map_of kvs ''access_token'' = Some (JStr at)
        \<and> map_of kvs ''scope'' = Some (JStr sc)
        \<and> map_of kvs ''status'' = Some (JStr st)
        \<and> Number rt (map_of kvs ''expires_in'') = Some ei \<and> 0 < ei
        \<and> Number rt (map_of kvs ''refresh_count'') = Some rc \<and> 0 \<le> rc)"
proof
  assume none: "TokenResponseSchema rt body = None"
  show "\<not> (\<exists>kvs tt ia ci at sc st ei rc. body = JObj kvs
        \<and> map_of kvs ''token_type'' = Some (JStr tt)
        \<and> map_of kvs ''issued_at'' = Some (JStr ia)
        \<and> map_of kvs ''client_id'' = Some (JStr ci)
        \<and> map_of kvs ''access_token'' = Some (JStr at)
        \<and> map_of kvs ''scope'' = Some (JStr sc)
        \<and> map_of kvs ''status'' = Some (JStr st)
        \<and> Number rt (map_of kvs ''expires_in'') = Some ei \<and> 0 < ei
        \<and> Number rt (map_of kvs ''refresh_count'') = Some rc \<and> 0 \<le> rc)"
  proof
    assume "\<exists>kvs tt ia ci at sc st ei rc. body = JObj kvs
        \<and> map_of kvs ''token_type'' = Some (JStr tt)
        \<and> map_of kvs ''issued_at'' = Some (JStr ia)
        \<and> map_of kvs ''client_id'' = Some (JStr ci)
        \<and> map_of kvs ''access_token'' = Some (JStr at)
        \<and> map_of kvs ''scope'' = Some (JStr sc)
        \<and> map_of kvs ''status'' = Some (JStr st)
        \<and> Number rt (map_of kvs ''expires_in'') = Some ei \<and> 0 < ei
        \<and> Number rt (map_of kvs ''refresh_count'') = Some rc \<and> 0 \<le> rc"
    then obtain kvs tt ia ci at sc st ei rc where "body = JObj kvs
        \<and> map_of kvs ''token_type'' = Some (JStr tt)
        \<and> map_of kvs ''issued_at'' = Some (JStr ia)
        \<and> map_of kvs ''client_id'' = Some (JStr ci)
        \<and> map_of kvs ''access_token'' = Some (JStr at)
        \<and> map_of kvs ''scope'' = Some (JStr sc)
        \<and> map_of kvs ''status'' = Some (JStr st)
        \<and> Number rt (map_of kvs ''expires_in'') = Some ei \<and> 0 < ei
        \<and> Number rt (map_of kvs ''refresh_count'') = Some rc \<and> 0 \<le> rc"
      by blast
    then have "TokenResponseSchema rt body =
      Some \<lparr> token_type = tt, issued_at = ia, client_id = ci, access_token = at, scope = sc,
            expires_in = ei, refresh_count = rc, status_field = st \<rparr>"
      by (simp add: TokenResponseSchema_Some)
    with none show False by simp
  qed
next
  assume no: "\<not> (\<exists>kvs tt ia ci at sc st ei rc. body = JObj kvs
        \<and> map_of kvs ''token_type'' = Some (JStr tt)
        \<and> map_of kvs ''issued_at'' = Some (JStr ia)
        \<and> map_of kvs ''client_id'' = Some (JStr ci)
        \<and> map_of kvs ''access_token'' = Some (JStr at)
        \<and> map_of kvs ''scope'' = Some (JStr sc)
        \<and> map_of kvs ''status'' = Some (JStr st)
        \<and> Number rt (map_of kvs ''expires_in'') = Some ei \<and> 0 < ei
        \<and> Number rt (map_of kvs ''refresh_count'') = Some rc \<and> 0 \<le> rc)"
  show "TokenResponseSchema rt body = None"
  proof (rule ccontr)
    assume "TokenResponseSchema rt body \<noteq> None"
    then obtain p where "TokenResponseSchema rt body = Some p" by blast
    then have "\<exists>kvs. body = JObj kvs
        \<and> map_of kvs ''token_type'' = Some (JStr (token_type p))
        \<and> map_of kvs ''issued_at'' = Some (JStr (issued_at p))
        \<and> map_of kvs ''client_id'' = Some (JStr (client_id p))
        \<and> map_of kvs ''access_token'' = Some (JStr (access_token p))
        \<and> map_of kvs ''scope'' = Some (JStr (scope p))
        \<and> Number rt (map_of kvs ''expires_in'') = Some (expires_in p) \<and> 0 < expires_in p
        \<and> Number rt (map_of kvs ''refresh_count'') = Some (refresh_count p) \<and> 0 \<le> refresh_count p
        \<and> map_of kvs ''status'' = Some (JStr (status_field p))"
      by (simp only: TokenResponseSchema_Some)
    with no show False by blast
  qed
qed

lemma UpsErrorResponseSchema_upsAxiosError:
  "UpsErrorResponseSchema
     (JObj [(''response'', JObj [(''errors'',
         JArr [JObj [(''code'', JStr c), (''message'', JStr m)]])])])
   = Some [UpsErrorEntry c m]"
  by (simp add: UpsErrorResponseSchema_def UpsErrorEntrySchema_def z_object_def z_array_def
      z_string_def)

lemma upsAxiosError_shape:
  "upsAxiosError st c m =
     AxiosError ''Request failed'' (Some (AxiosResponse st
       (JObj [(''response'', JObj [(''errors'',
          JArr [JObj [(''code'', JStr c), (''message'', JStr m)]])])])))"
  by (simp add: upsAxiosError_def)

text \<open>
  C3. With a token cached and the clock strictly before \<open>expiresAt\<close>, \<open>accessToken\<close>
  returns the cached value and leaves the whole world as it was: no field of the
  provider changes and no \<open>axios.post\<close> call is counted.
\<close>

theorem accessToken_cache_hit:
  assumes "cachedToken w = Some t" and "now w < expiresAt w"
  shows "UpsAuthClient_accessToken rt post w = (Inr t, w)
         \<and> posts (snd (UpsAuthClient_accessToken rt post w)) = posts w"
  using assms by (simp add: UpsAuthClient_accessToken_def)

theorem accessToken_cache_hit_witness:
  "UpsAuthClient_accessToken node (mockedPost [Inr (oauthResponse [])])
      (snd (UpsAuthClient_accessToken node (mockedPost [Inr (oauthResponse [])]) (new_world 0)))
     = (Inr ''tok_abc123'', cached)
   \<and> posts cached = 1"
proof -
  have c: "cachedToken cached = Some ''tok_abc123''" and v: "now cached < expiresAt cached"
    by (simp_all add: cached_def)
  from accessToken_cache_hit [OF c v, of node "mockedPost [Inr (oauthResponse [])]"]
  show ?thesis by (simp add: first_authentication) (simp add: cached_def)
qed

text \<open>
  C4. \<open>clearToken\<close> returns a world (it cannot throw), counts no \<open>axios.post\<close> call,
  sets the cached token to absent and \<open>expiresAt\<close> to 0. No clock reading at or after
  the epoch is strictly below 0, so the check \<open>now < expiresAt\<close> fails from then on, and
  whatever the clock reads (before the discarded token's nominal expiry or after it) the
  next \<open>accessToken\<close> is \<open>authenticate\<close>, which issues exactly one \<open>axios.post\<close>.
\<close>

theorem clearToken_forces_authentication:
  "UpsAuthClient_clearToken w = w\<lparr>cachedToken := None, expiresAt := 0\<rparr>
   \<and> posts (UpsAuthClient_clearToken w) = posts w
   \<and> cachedToken (UpsAuthClient_clearToken w) = None
   \<and> (\<forall>t. 0 \<le> t \<longrightarrow> \<not> t < expiresAt (UpsAuthClient_clearToken w))
   \<and> (\<forall>t. UpsAuthClient_accessToken rt post ((UpsAuthClient_clearToken w)\<lparr>now := t\<rparr>)
            = authenticate rt post ((UpsAuthClient_clearToken w)\<lparr>now := t\<rparr>)
          \<and> posts (snd (UpsAuthClient_accessToken rt post ((UpsAuthClient_clearToken w)\<lparr>now := t\<rparr>)))
            = posts w + 1)"
  by (simp add: UpsAuthClient_clearToken_def UpsAuthClient_accessToken_def authenticate_posts)

theorem clearToken_forces_authentication_witness:
  "now cached < expiresAt cached
   \<and> \<not> 5000 < expiresAt (UpsAuthClient_clearToken cached)
   \<and> UpsAuthClient_accessToken node
        (mockedPost [Inr (oauthResponse []), Inr (oauthResponse [(''access_token'', JStr ''tok_new'')])])
        ((UpsAuthClient_clearToken cached)\<lparr>now := 5000\<rparr>)
      = authenticate node
        (mockedPost [Inr (oauthResponse []), Inr (oauthResponse [(''access_token'', JStr ''tok_new'')])])
        ((UpsAuthClient_clearToken cached)\<lparr>now := 5000\<rparr>)
   \<and> posts (snd (UpsAuthClient_accessToken node
        (mockedPost [Inr (oauthResponse []), Inr (oauthResponse [(''access_token'', JStr ''tok_new'')])])
        ((UpsAuthClient_clearToken cached)\<lparr>now := 5000\<rparr>))) = 2"
proof -
  let ?post = "mockedPost [Inr (oauthResponse []), Inr (oauthResponse [(''access_token'', JStr ''tok_new'')])]"
  note c = clearToken_forces_authentication [of cached node ?post]
  have a: "\<not> 5000 < expiresAt (UpsAuthClient_clearToken cached)"
    using c [THEN conjunct2, THEN conjunct2, THEN conjunct2, THEN conjunct1, THEN spec, of 5000]
    by simp
  have b: "UpsAuthClient_accessToken node ?post ((UpsAuthClient_clearToken cached)\<lparr>now := 5000\<rparr>)
            = authenticate node ?post ((UpsAuthClient_clearToken cached)\<lparr>now := 5000\<rparr>)
          \<and> posts (snd (UpsAuthClient_accessToken node ?post ((UpsAuthClient_clearToken cached)\<lparr>now := 5000\<rparr>)))
            = posts cached + 1"
    by (rule c [THEN conjunct2, THEN conjunct2, THEN conjunct2, THEN conjunct2, THEN spec])
  have v: "now cached < expiresAt cached" and p: "posts cached + 1 = 2"
    by (simp_all add: cached_def)
  from b [THEN conjunct2] p have n: "posts (snd (UpsAuthClient_accessToken node ?post
      ((UpsAuthClient_clearToken cached)\<lparr>now := 5000\<rparr>))) = 2"
    by (rule trans)
  from v a b [THEN conjunct1] n show ?thesis by blast
qed

text \<open>
  C7. A successful authentication whose body gives \<open>expires_in = N\<close> stores
  \<open>expiresAt = now + (N - 60) * 1000\<close>, \<open>now\<close> being the clock reading (in milliseconds)
  when the response is stored. A cached token is served, with the world untouched,
  exactly while the clock is strictly below \<open>expiresAt\<close>. Once the clock has reached
  \<open>expiresAt\<close>, \<open>accessToken\<close> issues exactly one \<open>axios.post\<close>, and when that call
  answers with a well-formed body the value returned is the newly fetched token.
\<close>

theorem expiry_refresh:
  "(post (posts w) = (latency, Inr body) \<and> TokenResponseSchema rt body = Some parsed
      \<longrightarrow> expiresAt (snd (authenticate rt post w))
            = now (snd (authenticate rt post w)) + (expires_in parsed - 60) * 1000
          \<and> cachedToken (snd (authenticate rt post w)) = Some (access_token parsed))
   \<and> (cachedToken w = Some t
      \<longrightarrow> (now w < expiresAt w \<longleftrightarrow> UpsAuthClient_accessToken rt post w = (Inr t, w)))
   \<and> (cachedToken w = Some t \<and> expiresAt w \<le> now w
      \<longrightarrow> posts (snd (UpsAuthClient_accessToken rt post w)) = posts w + 1)
   \<and> (cachedToken w = Some t \<and> expiresAt w \<le> now w
        \<and> post (posts w) = (latency, Inr body) \<and> TokenResponseSchema rt body = Some parsed
      \<longrightarrow> fst (UpsAuthClient_accessToken rt post w) = Inr (access_token parsed)
          \<and> posts (snd (UpsAuthClient_accessToken rt post w)) = posts w + 1)"
proof (intro conjI impI)
  assume a: "post (posts w) = (latency, Inr body) \<and> TokenResponseSchema rt body = Some parsed"
  then show "expiresAt (snd (authenticate rt post w))
            = now (snd (authenticate rt post w)) + (expires_in parsed - 60) * 1000"
    and "cachedToken (snd (authenticate rt post w)) = Some (access_token parsed)"
    by (simp_all add: authenticate_success)
next
  assume c: "cachedToken w = Some t"
  show "now w < expiresAt w \<longleftrightarrow> UpsAuthClient_accessToken rt post w = (Inr t, w)"
  proof
    assume "now w < expiresAt w"
    with c show "UpsAuthClient_accessToken rt post w = (Inr t, w)"
      by (simp add: UpsAuthClient_accessToken_def)
  next
    assume hit: "UpsAuthClient_accessToken rt post w = (Inr t, w)"
    show "now w < expiresAt w"
    proof (rule ccontr)
      assume "\<not> now w < expiresAt w"
      then have "UpsAuthClient_accessToken rt post w = authenticate rt post w"
        by (simp add: UpsAuthClient_accessToken_def)
      with hit have "posts (snd (authenticate rt post w)) = posts w" by simp
      then show False by (simp add: authenticate_posts)
    qed
  qed
next
  assume "cachedToken w = Some t \<and> expiresAt w \<le> now w"
  then show "posts (snd (UpsAuthClient_accessToken rt post w)) = posts w + 1"
    by (simp add: UpsAuthClient_accessToken_def authenticate_posts)
next
  assume a: "cachedToken w = Some t \<and> expiresAt w \<le> now w
        \<and> post (posts w) = (latency, Inr body) \<and> TokenResponseSchema rt body = Some parsed"
  then have "UpsAuthClient_accessToken rt post w = authenticate rt post w"
    by (simp add: UpsAuthClient_accessToken_def)
  with a show "fst (UpsAuthClient_accessToken rt post w) = Inr (access_token parsed)"
    and "posts (snd (UpsAuthClient_accessToken rt post w)) = posts w + 1"
    by (simp_all add: authenticate_success)
qed

theorem expiry_refresh_witness:
  "expiresAt (snd (authenticate node refreshPosts (new_world 0)))
      = now (snd (authenticate node refreshPosts (new_world 0))) + (61 - 60) * 1000
   \<and> snd (authenticate node refreshPosts (new_world 0)) = shortLived
   \<and> UpsAuthClient_accessToken node refreshPosts (shortLived\<lparr>now := 999\<rparr>)
        = (Inr ''tok_abc123'', shortLived\<lparr>now := 999\<rparr>)
   \<and> fst (UpsAuthClient_accessToken node refreshPosts (shortLived\<lparr>now := 2000\<rparr>))
        = Inr ''tok_refreshed''
   \<and> posts (snd (UpsAuthClient_accessToken node refreshPosts (shortLived\<lparr>now := 2000\<rparr>))) = 2"
proof -
  let ?p61 = "\<lparr> token_type = ''Bearer'', issued_at = ''1718000000000'',
            client_id = ''test-client-id'', access_token = ''tok_abc123'', scope = ''public'',
            expires_in = 61, refresh_count = 0, status_field = ''approved'' \<rparr>"
  let ?pr = "\<lparr> token_type = ''Bearer'', issued_at = ''1718000000000'',
            client_id = ''test-client-id'', access_token = ''tok_refreshed'', scope = ''public'',
            expires_in = 14400, refresh_count = 0, status_field = ''approved'' \<rparr>"
  have h1: "refreshPosts (posts (new_world 0)) = (0, Inr (oauthResponse [(''expires_in'', JStr ''61'')]))
      \<and> TokenResponseSchema node (oauthResponse [(''expires_in'', JStr ''61'')]) = Some ?p61"
    by (simp add: refreshPosts_def mockedPost_def new_world_def TokenResponseSchema_61)
  have c1: "expiresAt (snd (authenticate node refreshPosts (new_world 0)))
      = now (snd (authenticate node refreshPosts (new_world 0))) + (expires_in ?p61 - 60) * 1000
      \<and> cachedToken (snd (authenticate node refreshPosts (new_world 0))) = Some (access_token ?p61)"
    by (rule expiry_refresh [where post = refreshPosts and w = "new_world 0" and rt = node,
          THEN conjunct1, THEN mp, OF h1])
  have c1': "snd (authenticate node refreshPosts (new_world 0)) = shortLived"
    using authenticate_success [of refreshPosts "new_world 0" 0 _ node ?p61] h1
    by (simp add: new_world_def shortLived_def)
  have h2: "cachedToken (shortLived\<lparr>now := 999\<rparr>) = Some ''tok_abc123''"
    by (simp add: shortLived_def)
  have v2: "now (shortLived\<lparr>now := 999\<rparr>) < expiresAt (shortLived\<lparr>now := 999\<rparr>)"
    by (simp add: shortLived_def)
  have c2: "UpsAuthClient_accessToken node refreshPosts (shortLived\<lparr>now := 999\<rparr>)
        = (Inr ''tok_abc123'', shortLived\<lparr>now := 999\<rparr>)"
    using expiry_refresh [where post = refreshPosts and w = "shortLived\<lparr>now := 999\<rparr>"
          and rt = node and t = "''tok_abc123''",
          THEN conjunct2, THEN conjunct1, THEN mp, OF h2] v2
    by blast
  have h4: "cachedToken (shortLived\<lparr>now := 2000\<rparr>) = Some ''tok_abc123''
        \<and> expiresAt (shortLived\<lparr>now := 2000\<rparr>) \<le> now (shortLived\<lparr>now := 2000\<rparr>)
        \<and> refreshPosts (posts (shortLived\<lparr>now := 2000\<rparr>))
            = (0, Inr (oauthResponse [(''access_token'', JStr ''tok_refreshed'')]))
        \<and> TokenResponseSchema node (oauthResponse [(''access_token'', JStr ''tok_refreshed'')])
            = Some ?pr"
    by (simp add: shortLived_def refreshPosts_def mockedPost_def TokenResponseSchema_refreshed)
  have c4: "fst (UpsAuthClient_accessToken node refreshPosts (shortLived\<lparr>now := 2000\<rparr>))
          = Inr (access_token ?pr)
        \<and> posts (snd (UpsAuthClient_accessToken node refreshPosts (shortLived\<lparr>now := 2000\<rparr>)))
          = posts (shortLived\<lparr>now := 2000\<rparr>) + 1"
    by (rule expiry_refresh [where post = refreshPosts and w = "shortLived\<lparr>now := 2000\<rparr>"
          and rt = node,
          THEN conjunct2, THEN conjunct2, THEN conjunct2, THEN mp, OF h4])
  have p: "posts (shortLived\<lparr>now := 2000\<rparr>) + 1 = 2"
    by (simp add: shortLived_def)
  from c4 [THEN conjunct2] p
  have n: "posts (snd (UpsAuthClient_accessToken node refreshPosts (shortLived\<lparr>now := 2000\<rparr>))) = 2"
    by (rule trans)
  from c1 [THEN conjunct1] c1' c2 c4 [THEN conjunct1] n show ?thesis by simp
qed

text \<open>
  C6. A failed authentication call is reported as \<open>UpsAuthClient_toStructuredError\<close> of
  what was thrown. Without a carrier response the result is a \<open>CarrierApiError\<close> with
  status 0. With a response, the message is the message of the first entry of the
  carrier's error list when the body has that shape and the list is not empty, and
  "UPS OAuth request failed (HTTP <status>)" otherwise; status 401 or 403 gives an
  \<open>AuthenticationError\<close>, 429 a \<open>RateLimitError\<close>, any other status a \<open>CarrierApiError\<close>
  with that status and the first entry's code when there is one. The HTTP 400 scenario
  is the seventh conjunct.
\<close>

theorem auth_failure_classification:
  "(\<not> isAxiosError e \<or> response e = None
      \<longrightarrow> name (UpsAuthClient_toStructuredError e) = CarrierApiError
          \<and> httpStatus (UpsAuthClient_toStructuredError e) = Some 0)
   \<and> (UpsErrorResponseSchema d = Some (x # xs)
      \<longrightarrow> message (UpsAuthClient_toStructuredError (AxiosError m (Some (AxiosResponse st d))))
            = err_message x)
   \<and> (UpsErrorResponseSchema d = None \<or> UpsErrorResponseSchema d = Some []
      \<longrightarrow> message (UpsAuthClient_toStructuredError (AxiosError m (Some (AxiosResponse st d))))
            = ''UPS OAuth request failed (HTTP '' @ string_of_int st @ '')'')
   \<and> (st = 401 \<or> st = 403
      \<longrightarrow> name (UpsAuthClient_toStructuredError (AxiosError m (Some (AxiosResponse st d))))
            = AuthenticationError)
   \<and> (st = 429
      \<longrightarrow> name (UpsAuthClient_toStructuredError (AxiosError m (Some (AxiosResponse st d))))
            = RateLimitError)
   \<and> (st \<noteq> 401 \<and> st \<noteq> 403 \<and> st \<noteq> 429
      \<longrightarrow> name (UpsAuthClient_toStructuredError (AxiosError m (Some (AxiosResponse st d))))
            = CarrierApiError
          \<and> httpStatus (UpsAuthClient_toStructuredError (AxiosError m (Some (AxiosResponse st d))))
            = Some st
          \<and> carrierCode (UpsAuthClient_toStructuredError (AxiosError m (Some (AxiosResponse st d))))
            = (case UpsErrorResponseSchema d of Some (y # ys) \<Rightarrow> Some (err_code y) | _ \<Rightarrow> None))
   \<and> UpsAuthClient_toStructuredError (upsAxiosError 400 ''10400'' ''Invalid grant_type'')
       = new_CarrierApiError ''Invalid grant_type'' 400 (Some ''10400'')
           (Some (upsAxiosError 400 ''10400'' ''Invalid grant_type''))
   \<and> (post (posts w) = (latency, Inl e)
      \<longrightarrow> fst (authenticate rt post w) = Inl (UpsAuthClient_toStructuredError e))"
proof (intro conjI impI)
  assume "\<not> isAxiosError e \<or> response e = None"
  then show "name (UpsAuthClient_toStructuredError e) = CarrierApiError"
    and "httpStatus (UpsAuthClient_toStructuredError e) = Some 0"
    by (auto simp: UpsAuthClient_toStructuredError_def new_CarrierApiError_def)
next
  assume "UpsErrorResponseSchema d = Some (x # xs)"
  then show "message (UpsAuthClient_toStructuredError (AxiosError m (Some (AxiosResponse st d)))) = err_message x"
    by (simp add: UpsAuthClient_toStructuredError_def isAxiosError_def Let_def
        new_CarrierApiError_def new_RateLimitError_def new_AuthenticationError_def)
next
  assume "UpsErrorResponseSchema d = None \<or> UpsErrorResponseSchema d = Some []"
  then show "message (UpsAuthClient_toStructuredError (AxiosError m (Some (AxiosResponse st d))))
          = ''UPS OAuth request failed (HTTP '' @ string_of_int st @ '')''"
    by (auto simp: UpsAuthClient_toStructuredError_def isAxiosError_def Let_def
        new_CarrierApiError_def new_RateLimitError_def new_AuthenticationError_def)
next
  assume "st = 401 \<or> st = 403"
  then show "name (UpsAuthClient_toStructuredError (AxiosError m (Some (AxiosResponse st d)))) = AuthenticationError"
    by (auto simp: UpsAuthClient_toStructuredError_def isAxiosError_def Let_def
        new_AuthenticationError_def)
next
  assume "st = 429"
  then show "name (UpsAuthClient_toStructuredError (AxiosError m (Some (AxiosResponse st d)))) = RateLimitError"
    by (simp add: UpsAuthClient_toStructuredError_def isAxiosError_def Let_def
        new_RateLimitError_def)
next
  assume a: "st \<noteq> 401 \<and> st \<noteq> 403 \<and> st \<noteq> 429"
  then show "name (UpsAuthClient_toStructuredError (AxiosError m (Some (AxiosResponse st d)))) = CarrierApiError"
    and "httpStatus (UpsAuthClient_toStructuredError (AxiosError m (Some (AxiosResponse st d)))) = Some st"
    by (simp_all add: UpsAuthClient_toStructuredError_def isAxiosError_def Let_def
        new_CarrierApiError_def)
  from a show "carrierCode (UpsAuthClient_toStructuredError (AxiosError m (Some (AxiosResponse st d))))
          = (case UpsErrorResponseSchema d of Some (y # ys) \<Rightarrow> Some (err_code y) | _ \<Rightarrow> None)"
    by (simp add: UpsAuthClient_toStructuredError_def isAxiosError_def Let_def
        new_CarrierApiError_def split: option.splits list.splits)
next
  show "UpsAuthClient_toStructuredError (upsAxiosError 400 ''10400'' ''Invalid grant_type'')
     = new_CarrierApiError ''Invalid grant_type'' 400 (Some ''10400'')
         (Some (upsAxiosError 400 ''10400'' ''Invalid grant_type''))"
    by (simp add: UpsAuthClient_toStructuredError_def isAxiosError_def Let_def upsAxiosError_def
        UpsErrorResponseSchema_upsAxiosError)
next
  assume "post (posts w) = (latency, Inl e)"
  then show "fst (authenticate rt post w) = Inl (UpsAuthClient_toStructuredError e)"
    by (simp add: authenticate_rejected)
qed

theorem auth_failure_classification_witness:
  "name (UpsAuthClient_toStructuredError (networkError ''ECONNREFUSED'')) = CarrierApiError
   \<and> httpStatus (UpsAuthClient_toStructuredError (networkError ''ECONNREFUSED'')) = Some 0
   \<and> message (UpsAuthClient_toStructuredError (upsAxiosError 401 ''10401'' ''ClientId is invalid''))
       = ''ClientId is invalid''
   \<and> name (UpsAuthClient_toStructuredError (upsAxiosError 401 ''10401'' ''ClientId is invalid''))
       = AuthenticationError
   \<and> name (UpsAuthClient_toStructuredError (upsAxiosError 429 ''10429'' ''Rate limit exceeded''))
       = RateLimitError
   \<and> message (UpsAuthClient_toStructuredError (AxiosError ''Request failed'' (Some (AxiosResponse 500 JNull))))
       = ''UPS OAuth request failed (HTTP 500)''
   \<and> httpStatus (UpsAuthClient_toStructuredError (AxiosError ''Request failed'' (Some (AxiosResponse 500 JNull))))
       = Some 500
   \<and> carrierCode (UpsAuthClient_toStructuredError (AxiosError ''Request failed'' (Some (AxiosResponse 500 JNull))))
       = None
   \<and> fst (authenticate node (mockedPost [Inl (upsAxiosError 400 ''10400'' ''Invalid grant_type'')])
          (new_world 0))
       = Inl (new_CarrierApiError ''Invalid grant_type'' 400 (Some ''10400'')
               (Some (upsAxiosError 400 ''10400'' ''Invalid grant_type'')))"
proof -
  note c = auth_failure_classification
  have n1: "\<not> isAxiosError (networkError ''ECONNREFUSED'') \<or> response (networkError ''ECONNREFUSED'') = None"
    by (simp add: networkError_def)
  have c1: "name (UpsAuthClient_toStructuredError (networkError ''ECONNREFUSED'')) = CarrierApiError
      \<and> httpStatus (UpsAuthClient_toStructuredError (networkError ''ECONNREFUSED'')) = Some 0"
    by (rule c [THEN conjunct1, THEN mp, OF n1])
  have c2: "message (UpsAuthClient_toStructuredError (upsAxiosError 401 ''10401'' ''ClientId is invalid''))
       = err_message (UpsErrorEntry ''10401'' ''ClientId is invalid'')"
    unfolding upsAxiosError_shape
    by (rule c [THEN conjunct2, THEN conjunct1, THEN mp, OF UpsErrorResponseSchema_upsAxiosError])
  have s401: "(401::int) = 401 \<or> (401::int) = 403" by simp
  have c3: "name (UpsAuthClient_toStructuredError (upsAxiosError 401 ''10401'' ''ClientId is invalid''))
       = AuthenticationError"
    unfolding upsAxiosError_shape
    by (rule c [THEN conjunct2, THEN conjunct2, THEN conjunct2, THEN conjunct1, THEN mp, OF s401])
  have c4: "name (UpsAuthClient_toStructuredError (upsAxiosError 429 ''10429'' ''Rate limit exceeded''))
       = RateLimitError"
    unfolding upsAxiosError_shape
    by (rule c [THEN conjunct2, THEN conjunct2, THEN conjunct2, THEN conjunct2, THEN conjunct1,
          THEN mp, OF refl])
  have none: "UpsErrorResponseSchema JNull = None \<or> UpsErrorResponseSchema JNull = Some []"
    by (simp add: UpsErrorResponseSchema_def z_object_def)
  have c5: "message (UpsAuthClient_toStructuredError (AxiosError ''Request failed'' (Some (AxiosResponse 500 JNull))))
       = ''UPS OAuth request failed (HTTP '' @ string_of_int 500 @ '')''"
    by (rule c [THEN conjunct2, THEN conjunct2, THEN conjunct1, THEN mp, OF none])
  have s500: "string_of_int 500 = ''500''"
    by (simp add: string_of_int_def string_of_nat.simps)
  have o500: "(500::int) \<noteq> 401 \<and> (500::int) \<noteq> 403 \<and> (500::int) \<noteq> 429" by simp
  have c6: "name (UpsAuthClient_toStructuredError (AxiosError ''Request failed'' (Some (AxiosResponse 500 JNull))))
            = CarrierApiError
          \<and> httpStatus (UpsAuthClient_toStructuredError (AxiosError ''Request failed'' (Some (AxiosResponse 500 JNull))))
            = Some 500
          \<and> carrierCode (UpsAuthClient_toStructuredError (AxiosError ''Request failed'' (Some (AxiosResponse 500 JNull))))
            = (case UpsErrorResponseSchema JNull of Some (y # ys) \<Rightarrow> Some (err_code y) | _ \<Rightarrow> None)"
    by (rule c [THEN conjunct2, THEN conjunct2, THEN conjunct2, THEN conjunct2, THEN conjunct2,
          THEN conjunct1, THEN mp, OF o500])
  have p: "mockedPost [Inl (upsAxiosError 400 ''10400'' ''Invalid grant_type'')] (posts (new_world 0))
      = (0, Inl (upsAxiosError 400 ''10400'' ''Invalid grant_type''))"
    by (simp add: mockedPost_def new_world_def)
  have c7: "fst (authenticate node (mockedPost [Inl (upsAxiosError 400 ''10400'' ''Invalid grant_type'')])
          (new_world 0))
       = Inl (UpsAuthClient_toStructuredError (upsAxiosError 400 ''10400'' ''Invalid grant_type''))"
    by (rule c [where post = "mockedPost [Inl (upsAxiosError 400 ''10400'' ''Invalid grant_type'')]"
          and w = "new_world 0",
          THEN conjunct2, THEN conjunct2, THEN conjunct2, THEN conjunct2, THEN conjunct2,
          THEN conjunct2, THEN conjunct2, THEN mp, OF p])
  note c8 = c [THEN conjunct2, THEN conjunct2, THEN conjunct2, THEN conjunct2, THEN conjunct2,
          THEN conjunct2, THEN conjunct1]
  have nn: "UpsErrorResponseSchema JNull = None"
    by (simp add: UpsErrorResponseSchema_def z_object_def)
  from c1 c2 c3 c4 c5 c6 c7 c8 s500 nn show ?thesis by simp
qed

text \<open>
  C8 (amended). \<open>TokenResponseSchema\<close> names eight fields and requires every one of
  them. A success body is accepted, and its token cached and returned, when it is an
  object whose \<open>token_type\<close>, \<open>issued_at\<close>, \<open>client_id\<close>, \<open>access_token\<close>, \<open>scope\<close> and
  \<open>status\<close> are strings, whose \<open>expires_in\<close> coerces to a positive number and whose
  \<open>refresh_count\<close> coerces to a non-negative number, whatever other fields it has. A body
  the schema rejects (third conjunct: exactly the bodies where one of the eight is missing
  or wrongly shaped) yields a \<open>CarrierApiError\<close> with status 0 and leaves \<open>cachedToken\<close>
  and \<open>expiresAt\<close> as they were.
\<close>

theorem token_response_acceptance:
  "(body = JObj kvs
      \<and> map_of kvs ''token_type'' = Some (JStr tt)
      \<and> map_of kvs ''issued_at'' = Some (JStr ia)
      \<and> map_of kvs ''client_id'' = Some (JStr ci)
      \<and> map_of kvs ''access_token'' = Some (JStr at)
      \<and> map_of kvs ''scope'' = Some (JStr sc)
      \<and> map_of kvs ''status'' = Some (JStr st)
      \<and> Number rt (map_of kvs ''expires_in'') = Some ei \<and> 0 < ei
      \<and> Number rt (map_of kvs ''refresh_count'') = Some rc \<and> 0 \<le> rc
      \<and> (cachedToken w = None \<or> expiresAt w \<le> now w)
      \<and> post (posts w) = (latency, Inr body)
    \<longrightarrow> UpsAuthClient_accessToken rt post w =
          (Inr at, w\<lparr>posts := posts w + 1, now := now w + int latency,
                     cachedToken := Some at,
                     expiresAt := now w + int latency + (ei - 60) * 1000\<rparr>))
   \<and> (TokenResponseSchema rt body = None
      \<and> (cachedToken w = None \<or> expiresAt w \<le> now w)
      \<and> post (posts w) = (latency, Inr body)
    \<longrightarrow> UpsAuthClient_accessToken rt post w =
          (Inl (new_CarrierApiError
                  (''UPS OAuth request failed: '' @ zodMessage rt ''TokenResponseSchema'' body)
                  0 None (Some (OtherError (zodMessage rt ''TokenResponseSchema'' body)))),
           w\<lparr>posts := posts w + 1, now := now w + int latency\<rparr>)
        \<and> cachedToken (snd (UpsAuthClient_accessToken rt post w)) = cachedToken w
        \<and> expiresAt (snd (UpsAuthClient_accessToken rt post w)) = expiresAt w)
   \<and> (TokenResponseSchema rt body = None \<longleftrightarrow>
       \<not> (\<exists>kvs tt ia ci at sc st ei rc. body = JObj kvs
        \<and> map_of kvs ''token_type'' = Some (JStr tt)
        \<and> map_of kvs ''issued_at'' = Some (JStr ia)
        \<and> map_of kvs ''client_id'' = Some (JStr ci)
        \<and> map_of kvs ''access_token'' = Some (JStr at)
        \<and> map_of kvs ''scope'' = Some (JStr sc)
        \<and> map_of kvs ''status'' = Some (JStr st)
        \<and> Number rt (map_of kvs ''expires_in'') = Some ei \<and> 0 < ei
        \<and> Number rt (map_of kvs ''refresh_count'') = Some rc \<and> 0 \<le> rc))"
proof (intro conjI impI)
  assume a: "body = JObj kvs
      \<and> map_of kvs ''token_type'' = Some (JStr tt)
      \<and> map_of kvs ''issued_at'' = Some (JStr ia)
      \<and> map_of kvs ''client_id'' = Some (JStr ci)
      \<and> map_of kvs ''access_token'' = Some (JStr at)
      \<and> map_of kvs ''scope'' = Some (JStr sc)
      \<and> map_of kvs ''status'' = Some (JStr st)
      \<and> Number rt (map_of kvs ''expires_in'') = Some ei \<and> 0 < ei
      \<and> Number rt (map_of kvs ''refresh_count'') = Some rc \<and> 0 \<le> rc
      \<and> (cachedToken w = None \<or> expiresAt w \<le> now w)
      \<and> post (posts w) = (latency, Inr body)"
  then have parsed: "TokenResponseSchema rt body =
      Some \<lparr> token_type = tt, issued_at = ia, client_id = ci, access_token = at, scope = sc,
            expires_in = ei, refresh_count = rc, status_field = st \<rparr>"
    by (simp add: TokenResponseSchema_Some)
  from a have "UpsAuthClient_accessToken rt post w = authenticate rt post w"
    by (simp add: accessToken_miss)
  also from a parsed have "\<dots> = (Inr at, w\<lparr>posts := posts w + 1, now := now w + int latency,
                     cachedToken := Some at,
                     expiresAt := now w + int latency + (ei - 60) * 1000\<rparr>)"
    by (simp add: authenticate_success)
  finally show "UpsAuthClient_accessToken rt post w =
          (Inr at, w\<lparr>posts := posts w + 1, now := now w + int latency,
                     cachedToken := Some at,
                     expiresAt := now w + int latency + (ei - 60) * 1000\<rparr>)" .
next
  assume a: "TokenResponseSchema rt body = None
      \<and> (cachedToken w = None \<or> expiresAt w \<le> now w)
      \<and> post (posts w) = (latency, Inr body)"
  then have "UpsAuthClient_accessToken rt post w = authenticate rt post w"
    by (simp add: accessToken_miss)
  with a have r: "UpsAuthClient_accessToken rt post w =
          (Inl (new_CarrierApiError
                  (''UPS OAuth request failed: '' @ zodMessage rt ''TokenResponseSchema'' body)
                  0 None (Some (OtherError (zodMessage rt ''TokenResponseSchema'' body)))),
           w\<lparr>posts := posts w + 1, now := now w + int latency\<rparr>)"
    by (simp add: authenticate_malformed)
  then show "UpsAuthClient_accessToken rt post w =
          (Inl (new_CarrierApiError
                  (''UPS OAuth request failed: '' @ zodMessage rt ''TokenResponseSchema'' body)
                  0 None (Some (OtherError (zodMessage rt ''TokenResponseSchema'' body)))),
           w\<lparr>posts := posts w + 1, now := now w + int latency\<rparr>)" .
  from r show "cachedToken (snd (UpsAuthClient_accessToken rt post w)) = cachedToken w"
    and "expiresAt (snd (UpsAuthClient_accessToken rt post w)) = expiresAt w"
    by simp_all
next
  show "TokenResponseSchema rt body = None \<longleftrightarrow>
       \<not> (\<exists>kvs tt ia ci at sc st ei rc. body = JObj kvs
        \<and> map_of kvs ''token_type'' = Some (JStr tt)
        \<and> map_of kvs ''issued_at'' = Some (JStr ia)
        \<and> map_of kvs ''client_id'' = Some (JStr ci)
        \<and> map_of kvs ''access_token'' = Some (JStr at)
        \<and> map_of kvs ''scope'' = Some (JStr sc)
        \<and> map_of kvs ''status'' = Some (JStr st)
        \<and> Number rt (map_of kvs ''expires_in'') = Some ei \<and> 0 < ei
        \<and> Number rt (map_of kvs ''refresh_count'') = Some rc \<and> 0 \<le> rc)"
    by (rule TokenResponseSchema_None)
qed

theorem token_response_acceptance_witness:
  "UpsAuthClient_accessToken node (mockedPost [Inr (JObj fullBody)]) (new_world 0)
     = (Inr ''tok_abc123'', cached)
   \<and> UpsAuthClient_accessToken node (mockedPost [Inr (oauthResponse []), Inr minimalBody]) expired
     = (Inl (new_CarrierApiError ''UPS OAuth request failed: Invalid input'' 0 None
               (Some (OtherError ''Invalid input''))),
        expired\<lparr>posts := 2\<rparr>)
   \<and> cachedToken (snd (UpsAuthClient_accessToken node
         (mockedPost [Inr (oauthResponse []), Inr minimalBody]) expired)) = Some ''tok_abc123''
   \<and> expiresAt (snd (UpsAuthClient_accessToken node
         (mockedPost [Inr (oauthResponse []), Inr minimalBody]) expired)) = 14340000"
proof -
  let ?post2 = "mockedPost [Inr (oauthResponse []), Inr minimalBody]"
  have h1: "JObj fullBody = JObj fullBody
      \<and> map_of fullBody ''token_type'' = Some (JStr ''Bearer'')
      \<and> map_of fullBody ''issued_at'' = Some (JStr ''1718000000000'')
      \<and> map_of fullBody ''client_id'' = Some (JStr ''test-client-id'')
      \<and> map_of fullBody ''access_token'' = Some (JStr ''tok_abc123'')
      \<and> map_of fullBody ''scope'' = Some (JStr ''public'')
      \<and> map_of fullBody ''status'' = Some (JStr ''approved'')
      \<and> Number node (map_of fullBody ''expires_in'') = Some 14400 \<and> (0::int) < 14400
      \<and> Number node (map_of fullBody ''refresh_count'') = Some 0 \<and> (0::int) \<le> 0
      \<and> (cachedToken (new_world 0) = None \<or> expiresAt (new_world 0) \<le> now (new_world 0))
      \<and> mockedPost [Inr (JObj fullBody)] (posts (new_world 0)) = (0, Inr (JObj fullBody))"
    by (simp add: fullBody_def node_def Number_js_def new_world_def mockedPost_def)
  have c1: "UpsAuthClient_accessToken node (mockedPost [Inr (JObj fullBody)]) (new_world 0) =
          (Inr ''tok_abc123'',
           (new_world 0)\<lparr>posts := posts (new_world 0) + 1, now := now (new_world 0) + int 0,
                     cachedToken := Some ''tok_abc123'',
                     expiresAt := now (new_world 0) + int 0 + (14400 - 60) * 1000\<rparr>)"
    by (rule token_response_acceptance [where post = "mockedPost [Inr (JObj fullBody)]"
        and w = "new_world 0", THEN conjunct1, THEN mp, OF h1])
  have w1: "(new_world 0)\<lparr>posts := posts (new_world 0) + 1, now := now (new_world 0) + int 0,
                     cachedToken := Some ''tok_abc123'',
                     expiresAt := now (new_world 0) + int 0 + (14400 - 60) * 1000\<rparr> = cached"
    by (simp add: new_world_def cached_def)
  have h2: "TokenResponseSchema node minimalBody = None
      \<and> (cachedToken expired = None \<or> expiresAt expired \<le> now expired)
      \<and> ?post2 (posts expired) = (0, Inr minimalBody)"
    by (simp add: TokenResponseSchema_minimalBody expired_def mockedPost_def)
  have c2: "UpsAuthClient_accessToken node ?post2 expired =
          (Inl (new_CarrierApiError
                  (''UPS OAuth request failed: '' @ zodMessage node ''TokenResponseSchema'' minimalBody)
                  0 None (Some (OtherError (zodMessage node ''TokenResponseSchema'' minimalBody)))),
           expired\<lparr>posts := posts expired + 1, now := now expired + int 0\<rparr>)
        \<and> cachedToken (snd (UpsAuthClient_accessToken node ?post2 expired)) = cachedToken expired
        \<and> expiresAt (snd (UpsAuthClient_accessToken node ?post2 expired)) = expiresAt expired"
    by (rule token_response_acceptance [where post = ?post2 and w = expired,
        THEN conjunct2, THEN conjunct1, THEN mp, OF h2])
  have m: "zodMessage node ''TokenResponseSchema'' minimalBody = ''Invalid input''"
    by (simp add: node_def)
  have w2: "expired\<lparr>posts := posts expired + 1, now := now expired + int 0\<rparr> = expired\<lparr>posts := 2\<rparr>"
    and f: "cachedToken expired = Some ''tok_abc123''" "expiresAt expired = 14340000"
    by (simp_all add: expired_def)
  from c1 w1 c2 m w2 f show ?thesis by (simp only:) simp
qed

text \<open>
  C8 as stated fails: a body with a string \<open>access_token\<close> and a positive \<open>expires_in\<close>
  but without \<open>token_type\<close>, \<open>scope\<close>, \<open>status\<close> and the other schema fields is
  rejected, and nothing is cached.
\<close>

theorem token_response_minimal_counterexample:
  "getProp ''access_token'' minimalBody = Some (JStr ''tok'')
   \<and> Number node (getProp ''expires_in'' minimalBody) = Some 3600
   \<and> fst (UpsAuthClient_accessToken node (mockedPost [Inr minimalBody]) (new_world 0))
       = Inl (new_CarrierApiError ''UPS OAuth request failed: Invalid input'' 0 None
               (Some (OtherError ''Invalid input'')))
   \<and> cachedToken (snd (UpsAuthClient_accessToken node (mockedPost [Inr minimalBody]) (new_world 0)))
       = None"
proof -
  have p: "mockedPost [Inr minimalBody] (posts (new_world 0)) = (0, Inr minimalBody)"
    by (simp add: mockedPost_def new_world_def)
  have "UpsAuthClient_accessToken node (mockedPost [Inr minimalBody]) (new_world 0)
      = authenticate node (mockedPost [Inr minimalBody]) (new_world 0)"
    by (rule accessToken_miss) (simp add: new_world_def)
  also have "\<dots> = (Inl (new_CarrierApiError
             (''UPS OAuth request failed: '' @ zodMessage node ''TokenResponseSchema'' minimalBody)
             0 None (Some (OtherError (zodMessage node ''TokenResponseSchema'' minimalBody)))),
      (new_world 0)\<lparr>posts := posts (new_world 0) + 1, now := now (new_world 0) + int 0\<rparr>)"
    by (rule authenticate_malformed [where post = "mockedPost [Inr minimalBody]"
        and w = "new_world 0", OF p TokenResponseSchema_minimalBody])
  finally have r: "UpsAuthClient_accessToken node (mockedPost [Inr minimalBody]) (new_world 0)
     = (Inl (new_CarrierApiError
             (''UPS OAuth request failed: '' @ zodMessage node ''TokenResponseSchema'' minimalBody)
             0 None (Some (OtherError (zodMessage node ''TokenResponseSchema'' minimalBody)))),
      (new_world 0)\<lparr>posts := posts (new_world 0) + 1, now := now (new_world 0) + int 0\<rparr>)" .
  have m: "zodMessage node ''TokenResponseSchema'' minimalBody = ''Invalid input''"
    by (simp add: node_def)
  have g: "getProp ''access_token'' minimalBody = Some (JStr ''tok'')
     \<and> Number node (getProp ''expires_in'' minimalBody) = Some 3600"
    by (simp add: getProp_def minimalBody_def node_def Number_js_def)
  from r m g show ?thesis by (simp add: new_world_def)
qed

section \<open>The rating operation\<close>

lemma RateRequestSchema_empty: "RateRequestSchema (JObj []) = None"
  by (simp add: RateRequestSchema_def AddressSchema_def z_object_def)

lemma RateRequestSchema_VALID_REQUEST: "RateRequestSchema VALID_REQUEST = Some VALID_PARSED"
  by (simp add: RateRequestSchema_def AddressSchema_def PackageSchema_def z_object_def
      z_string_def z_number_def z_optional_def z_array_def z_array_min_def z_min_def z_length_def
      positive_def VALID_REQUEST_def VALID_PARSED_def)

lemma UpsRateResponseSchema_garbage:
  "UpsRateResponseSchema (JObj [(''garbage'', JBool True)]) = None"
  by (simp add: UpsRateResponseSchema_def z_object_def)

lemma instanceof_Error_toStructuredError: "instanceof_Error (toStructuredError e)"
  by (simp add: toStructuredError_def instanceof_Error_def new_CarrierApiError_def
      new_RateLimitError_def split: option.splits)

lemma instanceof_CarrierApiError_toStructuredError:
  "instanceof_CarrierApiError (toStructuredError e)"
  by (simp add: toStructuredError_def instanceof_CarrierApiError_def new_CarrierApiError_def
      new_RateLimitError_def split: option.splits)

lemma instanceof_CarrierApiError_catch: "instanceof_CarrierApiError (fetchRates_catch e)"
  by (simp add: fetchRates_catch_def instanceof_CarrierApiError_def new_CarrierApiError_def)

lemma fetchRates_throws_CarrierApiError:
  "fetchRates rt this body s = (Inl e, s1) \<Longrightarrow> instanceof_CarrierApiError e"
  by (auto simp: fetchRates_def instanceof_CarrierApiError_catch
      split: prod.splits sum.splits option.splits)

lemma execute_throws:
  assumes "execute rt this input s = (Inl e, s1)"
  shows "name e = ValidationError \<and> RateRequestSchema input = None
         \<or> instanceof_CarrierApiError e \<and> RateRequestSchema input \<noteq> None"
proof (cases "RateRequestSchema input")
  case None
  with assms show ?thesis by (auto simp: execute_def new_ValidationError_def)
next
  case (Some parsed)
  obtain r s2 where f: "fetchRates rt this (toUpsRequest parsed) s = (r, s2)"
    by (cases "fetchRates rt this (toUpsRequest parsed) s")
  with assms Some have "r = Inl e"
    by (auto simp: execute_def split: sum.splits)
  with f have "instanceof_CarrierApiError e"
    by (auto dest: fetchRates_throws_CarrierApiError)
  with Some show ?thesis by simp
qed

lemma instanceof_CarrierApiError_name:
  "instanceof_CarrierApiError e \<Longrightarrow> name e = CarrierApiError \<or> name e = RateLimitError"
  by (cases e) (auto simp: instanceof_CarrierApiError_def)

lemma instanceof_Error_auth_toStructuredError:
  "instanceof_Error (UpsAuthClient_toStructuredError e)"
  by (simp add: UpsAuthClient_toStructuredError_def instanceof_Error_def new_CarrierApiError_def
      new_RateLimitError_def new_AuthenticationError_def Let_def)

lemma UpsAuthClient_accessToken_throws_Error:
  assumes "UpsAuthClient_accessToken rt post w = (Inl e, w')"
  shows "instanceof_Error e"
proof -
  from assms have a: "authenticate rt post w = (Inl e, w')"
    by (auto simp: UpsAuthClient_accessToken_def split: if_splits)
  obtain latency outcome where p: "post (posts w) = (latency, outcome)"
    by (cases "post (posts w)")
  with a show ?thesis
    by (auto simp: authenticate_def Let_def instanceof_Error_auth_toStructuredError
        split: sum.splits option.splits)
qed

lemma instanceof_Error_new_AuthenticationError:
  "instanceof_Error (new_AuthenticationError m c)"
  by (simp add: instanceof_Error_def new_AuthenticationError_def)

lemma retry_throws_Error:
  assumes auth: "\<And>w r w'. accessToken auth w = (Inl r, w') \<Longrightarrow> instanceof_Error r"
    and run: "retryWithFreshToken auth client config s = (Inl e, s1)"
  shows "instanceof_Error e"
proof -
  obtain r w1 where a: "accessToken auth (clearToken auth (fst s)) = (r, w1)"
    by (cases "accessToken auth (clearToken auth (fst s))")
  show ?thesis
  proof (cases r)
    case (Inl x)
    with a run have "e = x"
      by (simp add: retryWithFreshToken_def call_accessToken_def call_clearToken_def)
    with auth a Inl show ?thesis by blast
  next
    case (Inr freshToken)
    obtain r2 w2 where t: "client (withToken config freshToken) w1 = (r2, w2)"
      by (cases "client (withToken config freshToken) w1")
    with a run Inr have "(\<exists>x. e = toStructuredError x) \<or> (\<exists>m c. e = new_AuthenticationError m c)"
      by (auto simp: retryWithFreshToken_def call_accessToken_def call_clearToken_def
          executeWithToken_def split: sum.splits if_splits)
    then show ?thesis
      by (auto simp: instanceof_Error_toStructuredError instanceof_Error_new_AuthenticationError)
  qed
qed

lemma request_throws_Error:
  assumes auth: "\<And>w r w'. accessToken auth w = (Inl r, w') \<Longrightarrow> instanceof_Error r"
    and run: "request auth client config s = (Inl e, s1)"
  shows "instanceof_Error e"
proof -
  obtain r w1 where a: "accessToken auth (fst s) = (r, w1)"
    by (cases "accessToken auth (fst s)")
  show ?thesis
  proof (cases r)
    case (Inl x)
    with a run have "e = x"
      by (simp add: request_def call_accessToken_def)
    with auth a Inl show ?thesis by blast
  next
    case (Inr token)
    obtain r2 w2 where t: "client (withToken config token) w1 = (r2, w2)"
      by (cases "client (withToken config token) w1")
    show ?thesis
    proof (cases r2)
      case (Inr body)
      with a run \<open>r = Inr token\<close> t show ?thesis
        by (simp add: request_def call_accessToken_def executeWithToken_def)
    next
      case (Inl err)
      show ?thesis
      proof (cases "isAxiosError err \<and> response_status err = Some 401")
        case True
        with a run \<open>r = Inr token\<close> t Inl
        have "retryWithFreshToken auth client config
                (w2, snd s @ [AccessTokenCall, TransportCall (withToken config token)]) = (Inl e, s1)"
          by (simp add: request_def call_accessToken_def executeWithToken_def)
        with auth show ?thesis by (rule retry_throws_Error)
      next
        case False
        with a run \<open>r = Inr token\<close> t Inl have "e = toStructuredError err"
          by (auto simp: request_def call_accessToken_def executeWithToken_def)
        then show ?thesis by (simp add: instanceof_Error_toStructuredError)
      qed
    qed
  qed
qed

lemma request_UpsAuthClient_throws_Error:
  "request (UpsAuthClient rt post) client config s = (Inl e, s1) \<Longrightarrow> instanceof_Error e"
  by (rule request_throws_Error [where auth = "UpsAuthClient rt post"])
    (auto simp: UpsAuthClient_def dest: UpsAuthClient_accessToken_throws_Error)

lemma execute_request_failed:
  assumes "RateRequestSchema input = Some parsed"
    and "request (http_auth this) (http_client this) (ratingConfig this (toUpsRequest parsed)) s
           = (Inl e, s1)"
  shows "execute rt this input s = (Inl (fetchRates_catch e), s1)"
  using assms by (simp add: execute_def fetchRates_def)

lemma execute_parse_failed:
  assumes "RateRequestSchema input = Some parsed"
    and "request (http_auth this) (http_client this) (ratingConfig this (toUpsRequest parsed)) s
           = (Inr payload, s1)"
    and "UpsRateResponseSchema payload = None"
  shows "execute rt this input s =
     (Inl (fetchRates_catch (OtherError (zodMessage rt ''UpsRateResponseSchema'' payload))), s1)"
  using assms by (simp add: execute_def fetchRates_def)

lemma stubOperation_fields:
  "http_auth stubOperation = stubAuth [''tok'']" "http_client stubOperation = mockRequest"
  by (simp_all add: stubOperation_def new_UpsRatingOperation_def)

lemma request_stub_double401:
  "request (stubAuth [''tok'']) mockRequest config (double401, []) =
     (Inl (new_AuthenticationError ''Authentication failed after token refresh''
             (Some (axiosError 401))),
      \<lparr>callIndex = 2, queue = []\<rparr>,
      [AccessTokenCall, TransportCall (withToken config ''tok''), ClearTokenCall,
       AccessTokenCall, TransportCall (withToken config ''tok'')])"
  by (simp add: request_def retryWithFreshToken_def call_accessToken_def call_clearToken_def
      executeWithToken_def accessToken_stubAuth clearToken_stubAuth double401_def
      mockRequest_Cons isAxiosError_axiosError response_status_axiosError)

lemma request_stub_failing500:
  "request (stubAuth [''tok'']) mockRequest config (failing500, []) =
     (Inl (toStructuredError (axiosError 500)),
      \<lparr>callIndex = 1, queue = []\<rparr>,
      [AccessTokenCall, TransportCall (withToken config ''tok'')])"
  by (simp add: request_def call_accessToken_def
      executeWithToken_def accessToken_stubAuth failing500_def
      mockRequest_Cons isAxiosError_axiosError response_status_axiosError)

lemma request_stub_garbage:
  "request (stubAuth [''tok'']) mockRequest config (garbage, []) =
     (Inr (JObj [(''garbage'', JBool True)]),
      \<lparr>callIndex = 1, queue = []\<rparr>,
      [AccessTokenCall, TransportCall (withToken config ''tok'')])"
  by (simp add: request_def call_accessToken_def
      executeWithToken_def accessToken_stubAuth garbage_def mockRequest_Cons)

lemma request_ups_offline:
  "fst (request (UpsAuthClient node (mockedPost [])) (axios_request offline) GET_test
          (new_world 0, []))
     = Inl (UpsAuthClient_toStructuredError
              (OtherError ''Cannot read properties of undefined (reading 'data')''))"
  by (simp add: request_def call_accessToken_def UpsAuthClient_def UpsAuthClient_accessToken_def
      new_world_def authenticate_def mockedPost_def Let_def)

text \<open>
  C9. When \<open>RateRequestSchema\<close> rejects the input, \<open>execute\<close> throws a
  \<open>ValidationError\<close> and returns the state it was given: the trace has no new event (no
  \<open>accessToken\<close>, no transport call) and the world, which holds the counters of both
  kinds of network call, is unchanged. The check is the first thing \<open>execute\<close> does.
\<close>

theorem execute_validation_short_circuit:
  assumes "RateRequestSchema input = None"
  shows "execute rt this input s =
           (Inl (new_ValidationError (zodMessage rt ''RateRequestSchema'' input) None), s)
         \<and> name (projl (fst (execute rt this input s))) = ValidationError
         \<and> snd (snd (execute rt this input s)) = snd s
         \<and> fst (snd (execute rt this input s)) = fst s"
  using assms by (simp add: execute_def new_ValidationError_def)

theorem execute_validation_short_circuit_witness:
  "execute node stubOperation (JObj []) (garbage, [])
     = (Inl (new_ValidationError ''Invalid input'' None), garbage, [])"
  using execute_validation_short_circuit [OF RateRequestSchema_empty, of node stubOperation "(garbage, [])"]
  by (simp add: node_def)

text \<open>
  C10. Inside \<open>execute\<close>, an error thrown by \<open>http.request\<close> that is not a
  \<open>CarrierApiError\<close> is rethrown as \<open>CarrierApiError("UPS rating request failed", 0)\<close>
  with the original error as cause; so is the \<open>ZodError\<close> of a response the rating
  schema rejects. A \<open>CarrierApiError\<close> (which a \<open>RateLimitError\<close> is, and an
  \<open>AuthenticationError\<close> is not) propagates unchanged. Whatever \<open>request\<close> throws over
  the UPS provider is an \<open>Error\<close> instance, so the cause is never dropped there. Every
  error that leaves \<open>execute\<close> is an application error of class \<open>ValidationError\<close>,
  \<open>CarrierApiError\<close> or \<open>RateLimitError\<close>, never \<open>AuthenticationError\<close>.
\<close>

theorem execute_error_boundary:
  "(RateRequestSchema input = Some parsed
      \<and> request (http_auth this) (http_client this) (ratingConfig this (toUpsRequest parsed)) s
           = (Inl e, s1)
      \<and> \<not> instanceof_CarrierApiError e \<and> instanceof_Error e
    \<longrightarrow> execute rt this input s
          = (Inl (new_CarrierApiError ''UPS rating request failed'' 0 None (Some e)), s1))
   \<and> (RateRequestSchema input = Some parsed
      \<and> request (http_auth this) (http_client this) (ratingConfig this (toUpsRequest parsed)) s
           = (Inl e, s1)
      \<and> instanceof_CarrierApiError e
    \<longrightarrow> execute rt this input s = (Inl e, s1))
   \<and> (RateRequestSchema input = Some parsed
      \<and> request (http_auth this) (http_client this) (ratingConfig this (toUpsRequest parsed)) s
           = (Inr payload, s1)
      \<and> UpsRateResponseSchema payload = None
    \<longrightarrow> execute rt this input s
          = (Inl (new_CarrierApiError ''UPS rating request failed'' 0 None
                    (Some (OtherError (zodMessage rt ''UpsRateResponseSchema'' payload)))), s1))
   \<and> (request (UpsAuthClient rt post) client config su = (Inl eu, su1) \<longrightarrow> instanceof_Error eu)
   \<and> instanceof_CarrierApiError (new_CarrierApiError m st cc cs)
   \<and> instanceof_CarrierApiError (new_RateLimitError mo cs)
   \<and> \<not> instanceof_CarrierApiError (new_AuthenticationError m cs)
   \<and> (execute rt this input s = (Inl e, s1)
    \<longrightarrow> e = AppError (name e) (code e) (message e) (httpStatus e) (carrierCode e) (cause e)
        \<and> name e \<noteq> AuthenticationError
        \<and> (name e = ValidationError \<or> name e = CarrierApiError \<or> name e = RateLimitError))"
proof (intro conjI impI)
  assume "RateRequestSchema input = Some parsed
      \<and> request (http_auth this) (http_client this) (ratingConfig this (toUpsRequest parsed)) s
           = (Inl e, s1)
      \<and> \<not> instanceof_CarrierApiError e \<and> instanceof_Error e"
  then show "execute rt this input s
          = (Inl (new_CarrierApiError ''UPS rating request failed'' 0 None (Some e)), s1)"
    by (simp add: execute_request_failed fetchRates_catch_def)
next
  assume "RateRequestSchema input = Some parsed
      \<and> request (http_auth this) (http_client this) (ratingConfig this (toUpsRequest parsed)) s
           = (Inl e, s1)
      \<and> instanceof_CarrierApiError e"
  then show "execute rt this input s = (Inl e, s1)"
    by (simp add: execute_request_failed fetchRates_catch_def)
next
  assume "RateRequestSchema input = Some parsed
      \<and> request (http_auth this) (http_client this) (ratingConfig this (toUpsRequest parsed)) s
           = (Inr payload, s1)
      \<and> UpsRateResponseSchema payload = None"
  then show "execute rt this input s
          = (Inl (new_CarrierApiError ''UPS rating request failed'' 0 None
                    (Some (OtherError (zodMessage rt ''UpsRateResponseSchema'' payload)))), s1)"
    by (simp add: execute_parse_failed fetchRates_catch_def instanceof_CarrierApiError_def
        instanceof_Error_def)
next
  assume "request (UpsAuthClient rt post) client config su = (Inl eu, su1)"
  then show "instanceof_Error eu" by (rule request_UpsAuthClient_throws_Error)
next
  show "instanceof_CarrierApiError (new_CarrierApiError m st cc cs)"
    by (simp add: instanceof_CarrierApiError_def new_CarrierApiError_def)
  show "instanceof_CarrierApiError (new_RateLimitError mo cs)"
    by (simp add: instanceof_CarrierApiError_def new_RateLimitError_def)
  show "\<not> instanceof_CarrierApiError (new_AuthenticationError m cs)"
    by (simp add: instanceof_CarrierApiError_def new_AuthenticationError_def)
next
  assume x: "execute rt this input s = (Inl e, s1)"
  from execute_throws [OF x]
  have k: "name e = ValidationError \<and> RateRequestSchema input = None
         \<or> instanceof_CarrierApiError e" by blast
  from x k have shape: "e = AppError (name e) (code e) (message e) (httpStatus e) (carrierCode e) (cause e)"
    by (cases e) (auto simp: instanceof_CarrierApiError_def execute_def new_ValidationError_def)
  from k have kinds: "name e = ValidationError \<or> name e = CarrierApiError \<or> name e = RateLimitError"
    by (auto dest: instanceof_CarrierApiError_name)
  from shape show "e = AppError (name e) (code e) (message e) (httpStatus e) (carrierCode e) (cause e)" .
  from kinds show "name e \<noteq> AuthenticationError" by auto
  from kinds show "name e = ValidationError \<or> name e = CarrierApiError \<or> name e = RateLimitError" .
qed

theorem execute_error_boundary_witness:
  "execute node stubOperation VALID_REQUEST (double401, [])
     = (Inl (new_CarrierApiError ''UPS rating request failed'' 0 None
               (Some (new_AuthenticationError ''Authentication failed after token refresh''
                        (Some (axiosError 401))))),
        \<lparr>callIndex = 2, queue = []\<rparr>,
        [AccessTokenCall,
         TransportCall (withToken (ratingConfig stubOperation (toUpsRequest VALID_PARSED)) ''tok''),
         ClearTokenCall, AccessTokenCall,
         TransportCall (withToken (ratingConfig stubOperation (toUpsRequest VALID_PARSED)) ''tok'')])
   \<and> fst (execute node stubOperation VALID_REQUEST (failing500, []))
       = Inl (toStructuredError (axiosError 500))
   \<and> fst (execute node stubOperation VALID_REQUEST (garbage, []))
       = Inl (new_CarrierApiError ''UPS rating request failed'' 0 None
                (Some (OtherError ''Invalid input'')))
   \<and> instanceof_Error (UpsAuthClient_toStructuredError
         (OtherError ''Cannot read properties of undefined (reading 'data')''))
   \<and> name (new_CarrierApiError ''UPS rating request failed'' 0 None
               (Some (new_AuthenticationError ''Authentication failed after token refresh''
                        (Some (axiosError 401))))) \<noteq> AuthenticationError"
proof -
  let ?cfg = "ratingConfig stubOperation (toUpsRequest VALID_PARSED)"
  let ?auth = "new_AuthenticationError ''Authentication failed after token refresh''
                        (Some (axiosError 401))"
  let ?s1 = "(\<lparr>callIndex = 2, queue = []\<rparr>,
        [AccessTokenCall, TransportCall (withToken ?cfg ''tok''),
         ClearTokenCall, AccessTokenCall, TransportCall (withToken ?cfg ''tok'')])"
  let ?s2 = "(\<lparr>callIndex = 1, queue = []\<rparr>,
        [AccessTokenCall, TransportCall (withToken ?cfg ''tok'')])"
  note b = execute_error_boundary [where this = stubOperation and input = VALID_REQUEST
      and parsed = VALID_PARSED and rt = node]
  have h1: "RateRequestSchema VALID_REQUEST = Some VALID_PARSED
      \<and> request (http_auth stubOperation) (http_client stubOperation) ?cfg (double401, [])
           = (Inl ?auth, ?s1)
      \<and> \<not> instanceof_CarrierApiError ?auth \<and> instanceof_Error ?auth"
    by (simp add: RateRequestSchema_VALID_REQUEST stubOperation_fields request_stub_double401
        instanceof_Error_new_AuthenticationError)
      (simp add: instanceof_CarrierApiError_def new_AuthenticationError_def)
  have c1: "execute node stubOperation VALID_REQUEST (double401, [])
          = (Inl (new_CarrierApiError ''UPS rating request failed'' 0 None (Some ?auth)), ?s1)"
    by (rule b [THEN conjunct1, THEN mp, OF h1])
  have h2: "RateRequestSchema VALID_REQUEST = Some VALID_PARSED
      \<and> request (http_auth stubOperation) (http_client stubOperation) ?cfg (failing500, [])
           = (Inl (toStructuredError (axiosError 500)), ?s2)
      \<and> instanceof_CarrierApiError (toStructuredError (axiosError 500))"
    by (simp add: RateRequestSchema_VALID_REQUEST stubOperation_fields request_stub_failing500
        instanceof_CarrierApiError_toStructuredError)
  have c2: "execute node stubOperation VALID_REQUEST (failing500, [])
          = (Inl (toStructuredError (axiosError 500)), ?s2)"
    by (rule b [THEN conjunct2, THEN conjunct1, THEN mp, OF h2])
  have h3: "RateRequestSchema VALID_REQUEST = Some VALID_PARSED
      \<and> request (http_auth stubOperation) (http_client stubOperation) ?cfg (garbage, [])
           = (Inr (JObj [(''garbage'', JBool True)]), ?s2)
      \<and> UpsRateResponseSchema (JObj [(''garbage'', JBool True)]) = None"
    by (simp add: RateRequestSchema_VALID_REQUEST stubOperation_fields request_stub_garbage
        UpsRateResponseSchema_garbage)
  have c3: "execute node stubOperation VALID_REQUEST (garbage, [])
          = (Inl (new_CarrierApiError ''UPS rating request failed'' 0 None
                    (Some (OtherError (zodMessage node ''UpsRateResponseSchema''
                       (JObj [(''garbage'', JBool True)]))))), ?s2)"
    by (rule b [THEN conjunct2, THEN conjunct2, THEN conjunct1, THEN mp, OF h3])
  have m: "zodMessage node ''UpsRateResponseSchema'' (JObj [(''garbage'', JBool True)])
      = ''Invalid input''"
    by (simp add: node_def)
  obtain s4 where h4: "request (UpsAuthClient node (mockedPost [])) (axios_request offline) GET_test
          (new_world 0, [])
     = (Inl (UpsAuthClient_toStructuredError
              (OtherError ''Cannot read properties of undefined (reading 'data')'')), s4)"
    using request_ups_offline
    by (cases "request (UpsAuthClient node (mockedPost [])) (axios_request offline) GET_test
          (new_world 0, [])") simp
  have c4: "instanceof_Error (UpsAuthClient_toStructuredError
         (OtherError ''Cannot read properties of undefined (reading 'data')''))"
    by (rule execute_error_boundary [where rt = node and post = "mockedPost []"
          and client = "axios_request offline" and config = GET_test and su = "(new_world 0, [])",
          THEN conjunct2, THEN conjunct2, THEN conjunct2, THEN conjunct1, THEN mp, OF h4])
  have c5: "name (new_CarrierApiError ''UPS rating request failed'' 0 None (Some ?auth))
      \<noteq> AuthenticationError"
    using execute_error_boundary [where this = stubOperation and input = VALID_REQUEST
        and rt = node,
        THEN conjunct2, THEN conjunct2, THEN conjunct2, THEN conjunct2, THEN conjunct2,
        THEN conjunct2, THEN conjunct2, THEN mp, OF c1]
    by blast
  from c1 c2 c3 m c4 c5 show ?thesis by simp
qed

section \<open>The executor over the UPS provider\<close>

lemma request_reacquire_throws:
  assumes "accessToken auth w = (Inr token, w1)"
    and "client (withToken config token) w1 = (Inl err, w2)"
    and "isAxiosError err \<and> response_status err = Some 401"
    and "accessToken auth (clearToken auth w2) = (Inl e, w3)"
  shows "request auth client config (w, tr) =
           (Inl e, w3, tr @ [AccessTokenCall, TransportCall (withToken config token),
                             ClearTokenCall, AccessTokenCall])"
  using assms
  by (simp add: request_def retryWithFreshToken_def call_accessToken_def call_clearToken_def
      executeWithToken_def)

lemma UpsAuthClient_fields:
  "accessToken (UpsAuthClient rt post) = UpsAuthClient_accessToken rt post"
  "clearToken (UpsAuthClient rt post) = UpsAuthClient_clearToken"
  by (simp_all add: UpsAuthClient_def)

lemma revoked_first_token:
  "accessToken (UpsAuthClient node revokedPosts) (new_world 0) = (Inr ''tok_abc123'', cached)"
proof -
  have p: "revokedPosts (posts (new_world 0)) = (0, Inr (oauthResponse []))"
    by (simp add: revokedPosts_def mockedPost_def new_world_def)
  have "UpsAuthClient_accessToken node revokedPosts (new_world 0)
     = authenticate node revokedPosts (new_world 0)"
    by (rule accessToken_miss) (simp add: new_world_def)
  also have "\<dots> = (Inr ''tok_abc123'', cached)"
    using authenticate_success [where post = revokedPosts and w = "new_world 0",
        OF p TokenResponseSchema_oauthResponse]
    by (simp add: new_world_def cached_def)
  finally show ?thesis by (simp add: UpsAuthClient_fields)
qed

lemma unauthorized_first_attempt:
  "axios_request unauthorized config cached = (Inl (axiosError 401), rejected401)"
  by (simp add: axios_request_def unauthorized_def cached_def rejected401_def)

lemma revoked_second_token:
  "accessToken (UpsAuthClient node revokedPosts)
      (clearToken (UpsAuthClient node revokedPosts) rejected401)
     = (Inl (new_AuthenticationError ''ClientId is invalid''
               (Some (upsAxiosError 401 ''10401'' ''ClientId is invalid''))),
        revoked)"
proof -
  let ?w = "UpsAuthClient_clearToken rejected401"
  have p: "revokedPosts (posts ?w) = (0, Inl (upsAxiosError 401 ''10401'' ''ClientId is invalid''))"
    by (simp add: revokedPosts_def mockedPost_def UpsAuthClient_clearToken_def rejected401_def)
  have t: "UpsAuthClient_toStructuredError (upsAxiosError 401 ''10401'' ''ClientId is invalid'')
      = new_AuthenticationError ''ClientId is invalid''
               (Some (upsAxiosError 401 ''10401'' ''ClientId is invalid''))"
    by (simp add: UpsAuthClient_toStructuredError_def isAxiosError_def Let_def upsAxiosError_def
        UpsErrorResponseSchema_upsAxiosError)
  have w: "?w\<lparr>posts := posts ?w + 1, now := now ?w + int 0\<rparr> = revoked"
    by (simp add: UpsAuthClient_clearToken_def rejected401_def revoked_def)
  have "UpsAuthClient_accessToken node revokedPosts ?w = authenticate node revokedPosts ?w"
    by (rule accessToken_miss) (simp add: UpsAuthClient_clearToken_def)
  also have "\<dots> = (Inl (UpsAuthClient_toStructuredError
                            (upsAxiosError 401 ''10401'' ''ClientId is invalid'')),
                   ?w\<lparr>posts := posts ?w + 1, now := now ?w + int 0\<rparr>)"
    by (rule authenticate_rejected [where post = revokedPosts, OF p])
  finally have "UpsAuthClient_accessToken node revokedPosts ?w
     = (Inl (new_AuthenticationError ''ClientId is invalid''
               (Some (upsAxiosError 401 ''10401'' ''ClientId is invalid''))), revoked)"
    by (simp only: t w)
  then show ?thesis by (simp only: UpsAuthClient_fields)
qed

lemma withToken_GET_test:
  "withToken GET_test ''tok_abc123'' =
     \<lparr> method = ''GET'', url = ''/test'', data = None,
       headers = [(''Authorization'', ''Bearer tok_abc123'')] \<rparr>"
  by (simp add: withToken_def GET_test_def)

text \<open>
  C1 as stated fails when the re-acquisition itself is refused. The provider holds a
  token, the rating endpoint answers 401, and the token endpoint then answers 401 to
  the new credential grant: \<open>request\<close> throws the provider's \<open>AuthenticationError\<close>
  after one transport call, not two.
\<close>

theorem request_401_reacquire_fails_counterexample:
  "fst (axios_request unauthorized
          \<lparr> method = ''GET'', url = ''/test'', data = None,
            headers = [(''Authorization'', ''Bearer tok_abc123'')] \<rparr> cached)
       = Inl (axiosError 401)
   \<and> response_status (axiosError 401) = Some 401
   \<and> request (UpsAuthClient node revokedPosts) (axios_request unauthorized) GET_test
            (new_world 0, [])
       = (Inl (new_AuthenticationError ''ClientId is invalid''
                 (Some (upsAxiosError 401 ''10401'' ''ClientId is invalid''))),
          revoked,
          [AccessTokenCall,
           TransportCall \<lparr> method = ''GET'', url = ''/test'', data = None,
                           headers = [(''Authorization'', ''Bearer tok_abc123'')] \<rparr>,
           ClearTokenCall, AccessTokenCall])
   \<and> length (filter isTransportCall
        (snd (snd (request (UpsAuthClient node revokedPosts) (axios_request unauthorized)
                     GET_test (new_world 0, []))))) = 1"
proof -
  have e: "isAxiosError (axiosError 401) \<and> response_status (axiosError 401) = Some 401"
    by (simp add: isAxiosError_axiosError response_status_axiosError)
  have run: "request (UpsAuthClient node revokedPosts) (axios_request unauthorized) GET_test
            (new_world 0, [])
     = (Inl (new_AuthenticationError ''ClientId is invalid''
               (Some (upsAxiosError 401 ''10401'' ''ClientId is invalid''))),
        revoked,
        [] @ [AccessTokenCall, TransportCall (withToken GET_test ''tok_abc123''),
         ClearTokenCall, AccessTokenCall])"
    by (rule request_reacquire_throws [where client = "axios_request unauthorized"
          and config = GET_test, OF revoked_first_token unauthorized_first_attempt e
          revoked_second_token])
  have n: "length (filter isTransportCall
             [AccessTokenCall, TransportCall (withToken GET_test ''tok_abc123''),
              ClearTokenCall, AccessTokenCall]) = 1"
    by (simp add: isTransportCall_def)
  from run n e show ?thesis
    by (simp add: unauthorized_first_attempt withToken_GET_test)
qed

end
